theory Spec2Isabelle
  imports Complex_Main "HOL-Library.Log_Nat"
begin

section \<open>Shared data: Python exceptions, CSV rows, waypoints\<close>

text \<open>
  The embedding follows \<^verbatim>\<open>src/drone_show.py\<close>. The value of a Python float is a
  \<^typ>\<open>real\<close>; infinities and NaN are outside the model. Sums, differences and
  comparisons are those of the reals; the one quotient whose rounding decides an integer
  result, the division of the drift skip, is rounded to double precision (see
  \<open>double_div\<close> below). Every \<^verbatim>\<open>raise\<close> of the source is a value of \<open>py_error\<close>;
  \<^verbatim>\<open>sys.exit\<close> is a value of \<open>fatal\<close>.
\<close>

datatype py_error =
    KeyError | ValueError | TypeError | ZeroDivisionError | IndexError
  | OffboardError | RequestException | OtherError

datatype fatal = SystemExit int

text \<open>
  A cell of a \<^verbatim>\<open>csv.DictReader\<close> row, by what \<^verbatim>\<open>float()\<close> does on it: a text that
  parses to a number, a text that does not (\<^verbatim>\<open>ValueError\<close>), or the \<^verbatim>\<open>None\<close> the
  reader stores for a field missing at the end of a short line (\<^verbatim>\<open>TypeError\<close>).
  A row is a dictionary from column names to cells.
\<close>

datatype cell = Num real | Bad | Null

type_synonym row = "string \<rightharpoonup> cell"

text \<open>The 15-tuple the loader appends for each row, with the source's component names.\<close>

record waypoint =
  wp_t :: real
  wp_px :: real
  wp_py :: real
  wp_pz :: real
  wp_vx :: real
  wp_vy :: real
  wp_vz :: real
  wp_ax :: real
  wp_ay :: real
  wp_az :: real
  wp_yaw :: real
  wp_mode :: cell
  wp_ledr :: int
  wp_ledg :: int
  wp_ledb :: int

definition bind_err :: "py_error + 'a \<Rightarrow> ('a \<Rightarrow> py_error + 'b) \<Rightarrow> py_error + 'b" where
  "bind_err m f = (case m of Inl e \<Rightarrow> Inl e | Inr x \<Rightarrow> f x)"

definition py_float :: "cell \<Rightarrow> py_error + real" where
  "py_float c = (case c of Num x \<Rightarrow> Inr x | Bad \<Rightarrow> Inl ValueError | Null \<Rightarrow> Inl TypeError)"

definition getitem :: "row \<Rightarrow> string \<Rightarrow> py_error + cell" where
  "getitem r k = (case r k of None \<Rightarrow> Inl KeyError | Some c \<Rightarrow> Inr c)"

definition get_default :: "row \<Rightarrow> string \<Rightarrow> cell \<Rightarrow> cell" where
  "get_default r k d = (case r k of None \<Rightarrow> d | Some c \<Rightarrow> c)"

definition float_at :: "row \<Rightarrow> string \<Rightarrow> py_error + real" where
  "float_at r k = bind_err (getitem r k) py_float"

section \<open>Coordinate and waypoint normalizer\<close>

definition blender_north_west_up_to_ned :: "real \<Rightarrow> real \<Rightarrow> real \<Rightarrow> real \<times> real \<times> real" where
  "blender_north_west_up_to_ned x_b y_b z_b = (x_b, - y_b, - z_b)"

text \<open>
  \<^verbatim>\<open>extract_initial_positions\<close>: \<^verbatim>\<open>float(wp["px"])\<close>, \<^verbatim>\<open>float(wp["py"])\<close>,
  \<^verbatim>\<open>float(wp.get("pz", 0.0))\<close>; a \<^verbatim>\<open>KeyError\<close> or \<^verbatim>\<open>ValueError\<close> is raised again
  under the same class.
\<close>

definition extract_initial_positions :: "row \<Rightarrow> py_error + (real \<times> real \<times> real)" where
  "extract_initial_positions first_waypoint =
     bind_err (float_at first_waypoint ''px'') (\<lambda>initial_x.
     bind_err (float_at first_waypoint ''py'') (\<lambda>initial_y.
     bind_err (py_float (get_default first_waypoint ''pz'' (Num 0))) (\<lambda>initial_z.
     Inr (initial_x, initial_y, initial_z))))"

definition adjust_waypoint :: "real \<Rightarrow> real \<Rightarrow> real \<Rightarrow> waypoint \<Rightarrow> waypoint" where
  "adjust_waypoint initial_x initial_y initial_z w =
     w\<lparr>wp_px := wp_px w - initial_x, wp_py := wp_py w - initial_y, wp_pz := wp_pz w - initial_z\<rparr>"

text \<open>
  \<^verbatim>\<open>adjust_waypoints\<close>: the loop over the tuples. On 15-tuples of floats neither the
  unpacking nor the subtraction raises, so no element is dropped.
\<close>

definition adjust_waypoints :: "waypoint list \<Rightarrow> real \<Rightarrow> real \<Rightarrow> real \<Rightarrow> waypoint list" where
  "adjust_waypoints waypoints initial_x initial_y initial_z =
     map (adjust_waypoint initial_x initial_y initial_z) waypoints"

text \<open>
  The body of the \<^verbatim>\<open>try\<close> inside the row loop of \<^verbatim>\<open>read_trajectory_file\<close>, in the
  source's evaluation order. The two branches of the source differ in one place: the
  auto-origin branch reads \<^verbatim>\<open>row.get("pz", 0.0)\<close>, the configured-origin branch
  \<^verbatim>\<open>row["pz"]\<close>. \<^verbatim>\<open>clamp_led_value\<close> is imported from \<^verbatim>\<open>drone_show_src.utils\<close>;
  it is a parameter of the model, and may raise.
\<close>

definition row_to_waypoint :: "(cell \<Rightarrow> py_error + int) \<Rightarrow> bool \<Rightarrow> row \<Rightarrow> py_error + waypoint" where
  "row_to_waypoint clamp_led_value auto_launch_position r =
     bind_err (float_at r ''t'') (\<lambda>t.
     bind_err (float_at r ''px'') (\<lambda>px.
     bind_err (float_at r ''py'') (\<lambda>py.
     bind_err (if auto_launch_position then py_float (get_default r ''pz'' (Num 0))
               else float_at r ''pz'') (\<lambda>pz.
     bind_err (float_at r ''vx'') (\<lambda>vx.
     bind_err (float_at r ''vy'') (\<lambda>vy.
     bind_err (float_at r ''vz'') (\<lambda>vz.
     bind_err (float_at r ''ax'') (\<lambda>ax.
     bind_err (float_at r ''ay'') (\<lambda>ay.
     bind_err (float_at r ''az'') (\<lambda>az.
     bind_err (float_at r ''yaw'') (\<lambda>yaw.
     bind_err (clamp_led_value (get_default r ''ledr'' (Num 0))) (\<lambda>ledr.
     bind_err (clamp_led_value (get_default r ''ledg'' (Num 0))) (\<lambda>ledg.
     bind_err (clamp_led_value (get_default r ''ledb'' (Num 0))) (\<lambda>ledb.
     Inr \<lparr>wp_t = t, wp_px = px, wp_py = py, wp_pz = pz,
          wp_vx = vx, wp_vy = vy, wp_vz = vz,
          wp_ax = ax, wp_ay = ay, wp_az = az,
          wp_yaw = yaw, wp_mode = get_default r ''mode'' (Num 0),
          wp_ledr = ledr, wp_ledg = ledg, wp_ledb = ledb\<rparr>))))))))))))))"

text \<open>
  The row loop: a row whose decoding raises \<^verbatim>\<open>ValueError\<close> or \<^verbatim>\<open>KeyError\<close> is logged
  and skipped; any other exception reaches the outer \<^verbatim>\<open>except Exception\<close>, which exits
  with status 1.
\<close>

fun collect_rows :: "(cell \<Rightarrow> py_error + int) \<Rightarrow> bool \<Rightarrow> row list \<Rightarrow> fatal + waypoint list" where
  "collect_rows clamp_led_value auto_launch_position [] = Inr []"
| "collect_rows clamp_led_value auto_launch_position (r # rs) =
     (case row_to_waypoint clamp_led_value auto_launch_position r of
        Inr w \<Rightarrow>
          (case collect_rows clamp_led_value auto_launch_position rs of
             Inl x \<Rightarrow> Inl x
           | Inr ws \<Rightarrow> Inr (w # ws))
      | Inl e \<Rightarrow>
          if e = ValueError \<or> e = KeyError
          then collect_rows clamp_led_value auto_launch_position rs
          else Inl (SystemExit 1))"

text \<open>The waypoint a row is decoded to, if it is: what the row loop appends for it.\<close>

definition decoded :: "(cell \<Rightarrow> py_error + int) \<Rightarrow> bool \<Rightarrow> row \<Rightarrow> waypoint option" where
  "decoded clamp_led_value auto_launch_position r =
     (case row_to_waypoint clamp_led_value auto_launch_position r of
        Inl e \<Rightarrow> None
      | Inr w \<Rightarrow> Some w)"

text \<open>
  \<^verbatim>\<open>read_trajectory_file\<close>. The file is given as its list of rows, \<open>None\<close> when it
  cannot be opened or read.
\<close>

definition read_trajectory_file ::
  "(cell \<Rightarrow> py_error + int) \<Rightarrow> row list option \<Rightarrow> bool \<Rightarrow> real \<Rightarrow> real \<Rightarrow> fatal + waypoint list" where
  "read_trajectory_file clamp_led_value file auto_launch_position initial_x initial_y =
     (case file of
        None \<Rightarrow> Inl (SystemExit 1)
      | Some rows \<Rightarrow>
          if rows = [] then Inl (SystemExit 1)
          else if auto_launch_position then
            (case extract_initial_positions (hd rows) of
               Inl e \<Rightarrow> Inl (SystemExit 1)
             | Inr (init_n, init_e, init_d) \<Rightarrow>
                 (case collect_rows clamp_led_value True rows of
                    Inl x \<Rightarrow> Inl x
                  | Inr waypoints \<Rightarrow> Inr (adjust_waypoints waypoints init_n init_e init_d)))
          else
            (case collect_rows clamp_led_value False rows of
               Inl x \<Rightarrow> Inl x
             | Inr waypoints \<Rightarrow> Inr (adjust_waypoints waypoints initial_x initial_y 0)))"

section \<open>Trajectory execution engine\<close>

text \<open>
  The constants of \<^verbatim>\<open>Params\<close> (imported from \<^verbatim>\<open>src.params\<close>) that the engine reads
  are configuration: they are the fields of a record, and every general statement below
  holds for all their values.
\<close>

record params =
  DRIFT_CHECK_PERIOD :: real
  GROUND_ALTITUDE_THRESHOLD :: real
  ENABLE_INITIAL_POSITION_CORRECTION :: bool
  INITIAL_CLIMB_ALTITUDE_THRESHOLD :: real
  INITIAL_CLIMB_TIME_THRESHOLD :: real
  INITIAL_CLIMB_MODE :: string
  INITIAL_CLIMB_VZ_DEFAULT :: real
  USE_GLOBAL_SETPOINTS :: bool
  FEEDFORWARD_VELOCITY_ENABLED :: bool
  FEEDFORWARD_ACCELERATION_ENABLED :: bool
  MISSION_PROGRESS_THRESHOLD :: real
  CONTROLLED_LANDING_TIME :: real
  CONTROLLED_LANDING_ALTITUDE :: real
  CONTROLLED_DESCENT_SPEED :: real
  LANDING_TIMEOUT :: real
  REQUIRE_GLOBAL_POSITION :: bool

text \<open>\<^verbatim>\<open>PositionNedYaw\<close>, as the position correction stores it.\<close>

record position_ned_yaw =
  north_m :: real
  east_m :: real
  down_m :: real
  yaw_deg :: real

text \<open>
  The calls the engine makes on the vehicle link, and the observable events of a run.
  \<open>Setpoint i c\<close> is the call of command \<open>c\<close> made while the cursor is \<open>i\<close>; the call
  is recorded whether or not it raises. \<open>Controlled_landing\<close> is the call of the landing
  controller from \<^verbatim>\<open>perform_trajectory\<close>; the controller itself is modelled below.
\<close>

datatype command =
    Set_velocity_body real real real real
  | Set_position_ned real real real "real option"
  | Set_position_velocity_ned "real \<times> real \<times> real \<times> real" "real \<times> real \<times> real \<times> real"
  | Set_position_velocity_acceleration_ned
      "real \<times> real \<times> real \<times> real" "real \<times> real \<times> real \<times> real" "real \<times> real \<times> real"
  | Set_position_global real real real real
  | Set_velocity_ned real real real real

datatype event =
    Set_color int int int
  | Setpoint nat command
  | Command command
  | Sleep real
  | Controlled_landing
  | Stop_offboard_mode
  | Perform_landing
  | Wait_for_landing
  | Disarm_drone
  | Hold
  | Arm
  | Disarm
  | Offboard_start

datatype ctl = Next | Break

text \<open>The local and global variables the loop of \<^verbatim>\<open>perform_trajectory\<close> updates.\<close>

record loop_state =
  waypoint_index :: nat
  landing_detected :: bool
  in_initial_climb :: bool
  initial_climb_completed :: bool
  initial_climb_yaw :: "real option"
  drift_delta :: real

text \<open>
  What the world supplies during one iteration: the clock reading, the first sample of
  the attitude stream (read only in the local-NED climb; \<open>Inr None\<close> when the stream
  ends without a sample), whether the one setpoint call of the iteration raises, and
  whether the call of the landing controller raises.
\<close>

record iter_env =
  now :: real
  attitude :: "py_error + real option"
  command_result :: "py_error option"
  landing_result :: "py_error option"

definition DRIFT_CATCHUP_MAX_SEC :: real where
  "DRIFT_CATCHUP_MAX_SEC = 1 / 2"

definition AHEAD_SLEEP_STEP_SEC :: real where
  "AHEAD_SLEEP_STEP_SEC = 1 / 10"

text \<open>Python's \<^verbatim>\<open>int()\<close> on a float truncates towards zero.\<close>

definition py_int :: "real \<Rightarrow> int" where
  "py_int x = (if 0 \<le> x then \<lfloor>x\<rfloor> else \<lceil>x\<rceil>)"

text \<open>
  Division of two Python floats: the exact quotient rounded to the nearest double
  (IEEE 754 binary64, 53 significant bits, ties to the even significand). For \<open>x\<close> with
  \<open>2^e \<le> \<bar>x\<bar> < 2^(e+1)\<close> the doubles are the multiples of \<open>2^(e-52)\<close>; \<open>exponent\<close>
  computes that \<open>e\<close> from the bit length of the integer part, or of the integer part of
  the inverse for a number below 1. Overflow and subnormal numbers are outside the model.
\<close>

definition pow2 :: "int \<Rightarrow> real" where
  "pow2 e = (if 0 \<le> e then 2 ^ nat e else 1 / 2 ^ nat (- e))"

definition round_half_even :: "real \<Rightarrow> int" where
  "round_half_even y =
     (let f = \<lfloor>y\<rfloor>; r = y - of_int f
      in if r < 1 / 2 then f else if 1 / 2 < r then f + 1 else if even f then f else f + 1)"

definition exponent :: "real \<Rightarrow> int" where
  "exponent x = (if 1 \<le> x then bitlen \<lfloor>x\<rfloor> - 1 else - bitlen (\<lceil>1 / x\<rceil> - 1))"

definition round_double :: "real \<Rightarrow> real" where
  "round_double x =
     (if x = 0 then 0
      else
        let e = exponent \<bar>x\<bar>;
            ulp = pow2 (e - 52)
        in sgn x * of_int (round_half_even (\<bar>x\<bar> / ulp)) * ulp)"

definition double_div :: "real \<Rightarrow> real \<Rightarrow> real" where
  "double_div x y = round_double (x / y)"

text \<open>Lines 519 to 529: the step between rows and the landing method.\<close>

definition csv_step :: "params \<Rightarrow> waypoint list \<Rightarrow> real" where
  "csv_step P waypoints =
     (if length waypoints > 1 then wp_t (waypoints ! 1) - wp_t (waypoints ! 0)
      else DRIFT_CHECK_PERIOD P)"

definition final_altitude :: "waypoint list \<Rightarrow> real" where
  "final_altitude waypoints = - wp_pz (last waypoints)"

definition trajectory_ends_high :: "params \<Rightarrow> waypoint list \<Rightarrow> bool" where
  "trajectory_ends_high P waypoints \<longleftrightarrow> final_altitude waypoints > GROUND_ALTITUDE_THRESHOLD P"

text \<open>Lines 552 to 557 and 609 to 614: the position correction.\<close>

definition corrected_position ::
  "params \<Rightarrow> position_ned_yaw option \<Rightarrow> waypoint \<Rightarrow> real \<times> real \<times> real" where
  "corrected_position P initial_position_drift w =
     (case initial_position_drift of
        Some d \<Rightarrow>
          if ENABLE_INITIAL_POSITION_CORRECTION P
          then (wp_px w + north_m d, wp_py w + east_m d, wp_pz w + down_m d)
          else (wp_px w, wp_py w, wp_pz w)
      | None \<Rightarrow> (wp_px w, wp_py w, wp_pz w))"

text \<open>The two \<^verbatim>\<open>except\<close> clauses of the loop do the same: red, \<^verbatim>\<open>break\<close>.\<close>

definition loop_handler :: "event list \<Rightarrow> loop_state \<Rightarrow> event list \<times> ctl \<times> loop_state" where
  "loop_handler evs s = (evs @ [Set_color 255 0 0], Break, s)"

text \<open>Lines 560 to 569: the climb gate.\<close>

definition climb_gate :: "params \<Rightarrow> real \<Rightarrow> real \<Rightarrow> loop_state \<Rightarrow> loop_state" where
  "climb_gate P time_in_climb pz s =
     (if initial_climb_completed s then s\<lparr>in_initial_climb := False\<rparr>
      else
        let actual_alt = - pz;
            under_alt = actual_alt < INITIAL_CLIMB_ALTITUDE_THRESHOLD P;
            under_time = time_in_climb < INITIAL_CLIMB_TIME_THRESHOLD P;
            s1 = s\<lparr>in_initial_climb := (under_alt \<or> under_time)\<rparr>
        in if in_initial_climb s1 then s1 else s1\<lparr>initial_climb_completed := True\<rparr>)"

text \<open>Lines 574 to 593: one climb setpoint, then the cursor moves on.\<close>

definition send_climb ::
  "iter_env \<Rightarrow> event list \<Rightarrow> command \<Rightarrow> loop_state \<Rightarrow> event list \<times> ctl \<times> loop_state" where
  "send_climb env evs c s =
     (case command_result env of
        Some e \<Rightarrow> loop_handler (evs @ [Setpoint (waypoint_index s) c]) s
      | None \<Rightarrow>
          (evs @ [Setpoint (waypoint_index s) c], Next, s\<lparr>waypoint_index := waypoint_index s + 1\<rparr>))"

definition initial_climb ::
  "params \<Rightarrow> iter_env \<Rightarrow> event list \<Rightarrow> waypoint \<Rightarrow> real \<times> real \<times> real \<Rightarrow> loop_state
     \<Rightarrow> event list \<times> ctl \<times> loop_state" where
  "initial_climb P env evs w pos s =
     (if INITIAL_CLIMB_MODE P = ''BODY_VELOCITY'' then
        let vz_climb = (if \<bar>wp_vz w\<bar> > 1 / 1000000 then wp_vz w else INITIAL_CLIMB_VZ_DEFAULT P);
            s1 = (case initial_climb_yaw s of
                    None \<Rightarrow> s\<lparr>initial_climb_yaw := Some (wp_yaw w)\<rparr>
                  | Some y \<Rightarrow> s)
        in send_climb env evs (Set_velocity_body 0 0 (- vz_climb) 0) s1
      else
        (case pos of (px, py, pz) \<Rightarrow>
          (case initial_climb_yaw s of
             Some y \<Rightarrow> send_climb env evs (Set_position_ned px py pz (Some y)) s
           | None \<Rightarrow>
               (case attitude env of
                  Inl e \<Rightarrow> loop_handler evs s
                | Inr y \<Rightarrow>
                    send_climb env evs (Set_position_ned px py pz y) (s\<lparr>initial_climb_yaw := y\<rparr>)))))"

text \<open>
  Lines 596 to 601: the drift skip. The division raises \<^verbatim>\<open>ZeroDivisionError\<close> when the
  step is zero; otherwise \<^verbatim>\<open>int()\<close> truncates the double quotient, and the result is the
  cursor after the skip.
\<close>

definition drift_skip :: "real \<Rightarrow> real \<Rightarrow> nat \<Rightarrow> nat \<Rightarrow> py_error + nat" where
  "drift_skip drift step cursor total_waypoints =
     (let safe_drift = min drift DRIFT_CATCHUP_MAX_SEC
      in if step = 0 then Inl ZeroDivisionError
         else
           let skip_count = py_int (double_div safe_drift step)
           in if skip_count > 0
              then Inr (min (cursor + nat skip_count) (total_waypoints - 1))
              else Inr cursor)"

text \<open>
  Lines 625 to 661: the one setpoint of a dispatch iteration, by configuration.
  \<^verbatim>\<open>pm.ned2geodetic\<close> belongs to a library and is a parameter.
\<close>

definition dispatch_command ::
  "params \<Rightarrow> (real \<times> real \<times> real \<Rightarrow> real \<times> real \<times> real \<Rightarrow> real \<times> real \<times> real)
     \<Rightarrow> real \<times> real \<times> real \<Rightarrow> waypoint \<Rightarrow> real \<times> real \<times> real \<Rightarrow> command" where
  "dispatch_command P ned2geodetic launch w pos =
     (case pos of (px, py, pz) \<Rightarrow>
       (case ned2geodetic pos launch of (lla_lat, lla_lon, lla_alt) \<Rightarrow>
          if USE_GLOBAL_SETPOINTS P then Set_position_global lla_lat lla_lon lla_alt (wp_yaw w)
          else if FEEDFORWARD_VELOCITY_ENABLED P \<and> FEEDFORWARD_ACCELERATION_ENABLED P then
            Set_position_velocity_acceleration_ned (px, py, pz, wp_yaw w)
              (wp_vx w, wp_vy w, wp_vz w, wp_yaw w) (wp_ax w, wp_ay w, wp_az w)
          else if FEEDFORWARD_VELOCITY_ENABLED P then
            Set_position_velocity_ned (px, py, pz, wp_yaw w) (wp_vx w, wp_vy w, wp_vz w, wp_yaw w)
          else Set_position_ned px py pz (Some (wp_yaw w))))"

text \<open>
  Lines 665 to 682: progress, the landing trigger, and the step of the cursor.
  \<open>t_wp\<close> and \<open>pz\<close> are those of the waypoint under the cursor after the skip.
\<close>

definition landing_decision ::
  "params \<Rightarrow> waypoint list \<Rightarrow> iter_env \<Rightarrow> event list \<Rightarrow> real \<Rightarrow> real \<Rightarrow> loop_state
     \<Rightarrow> event list \<times> ctl \<times> loop_state" where
  "landing_decision P waypoints env evs t_wp current_alt_sp s =
     (let time_to_end = wp_t (last waypoints) - t_wp;
          prog = real (waypoint_index s + 1) / real (length waypoints)
      in if (\<not> trajectory_ends_high P waypoints \<and> prog \<ge> MISSION_PROGRESS_THRESHOLD P)
            \<and> (time_to_end \<le> CONTROLLED_LANDING_TIME P
                 \<or> current_alt_sp < CONTROLLED_LANDING_ALTITUDE P)
         then
           (case landing_result env of
              Some e \<Rightarrow> loop_handler (evs @ [Controlled_landing]) s
            | None \<Rightarrow> (evs @ [Controlled_landing], Break, s\<lparr>landing_detected := True\<rparr>))
         else (evs, Next, s\<lparr>waypoint_index := waypoint_index s + 1\<rparr>))"

text \<open>Lines 595 to 682: the part of an on-time iteration after the climb gate.\<close>

definition dispatch_iteration ::
  "params \<Rightarrow> (real \<times> real \<times> real \<Rightarrow> real \<times> real \<times> real \<Rightarrow> real \<times> real \<times> real)
     \<Rightarrow> waypoint list \<Rightarrow> real \<times> real \<times> real \<Rightarrow> position_ned_yaw option
     \<Rightarrow> iter_env \<Rightarrow> event list \<Rightarrow> loop_state \<Rightarrow> event list \<times> ctl \<times> loop_state" where
  "dispatch_iteration P ned2geodetic waypoints launch initial_position_drift env evs s =
     (case drift_skip (drift_delta s) (csv_step P waypoints) (waypoint_index s) (length waypoints) of
        Inl e \<Rightarrow> loop_handler evs s
      | Inr j \<Rightarrow>
          let s1 = s\<lparr>waypoint_index := j\<rparr>;
              w = waypoints ! j;
              pos = corrected_position P initial_position_drift w;
              current_alt_sp = - snd (snd pos);
              c = dispatch_command P ned2geodetic launch w pos
          in (case command_result env of
                Some e \<Rightarrow> loop_handler (evs @ [Setpoint j c]) s1
              | None \<Rightarrow>
                  landing_decision P waypoints env
                    (evs @ [Setpoint j c, Set_color (wp_ledr w) (wp_ledg w) (wp_ledb w)])
                    (wp_t w) current_alt_sp s1))"

text \<open>
  Lines 535 to 699: one iteration of the \<^verbatim>\<open>while\<close> loop, entered with the cursor inside
  the trajectory.
\<close>

definition iteration ::
  "params \<Rightarrow> (real \<times> real \<times> real \<Rightarrow> real \<times> real \<times> real \<Rightarrow> real \<times> real \<times> real)
     \<Rightarrow> waypoint list \<Rightarrow> real \<Rightarrow> real \<times> real \<times> real \<Rightarrow> position_ned_yaw option \<Rightarrow> real
     \<Rightarrow> iter_env \<Rightarrow> loop_state \<Rightarrow> event list \<times> ctl \<times> loop_state" where
  "iteration P ned2geodetic waypoints start_time launch initial_position_drift
       initial_climb_start_time env s =
     (let elapsed = now env - start_time;
          waypoint = waypoints ! waypoint_index s;
          t_wp = wp_t waypoint;
          s0 = s\<lparr>drift_delta := elapsed - t_wp\<rparr>
      in if drift_delta s0 \<ge> 0 then
           let pos = corrected_position P initial_position_drift waypoint;
               time_in_climb = now env - initial_climb_start_time;
               s1 = climb_gate P time_in_climb (snd (snd pos)) s0;
               evs = [Set_color (wp_ledr waypoint) (wp_ledg waypoint) (wp_ledb waypoint)]
           in if in_initial_climb s1 then initial_climb P env evs waypoint pos s1
              else dispatch_iteration P ned2geodetic waypoints launch initial_position_drift env evs s1
         else
           let sleep_duration = t_wp - elapsed
           in if sleep_duration > 0
              then ([Sleep (min sleep_duration AHEAD_SLEEP_STEP_SEC)], Next, s0)
              else ([], Next, s0\<lparr>waypoint_index := waypoint_index s0 + 1\<rparr>))"

text \<open>
  The \<^verbatim>\<open>while\<close> loop over the clock readings supplied: the list of iterations made, each
  with the events it caused and the state it left, and whether the loop has ended (the
  cursor ran out, or a \<^verbatim>\<open>break\<close>) within the readings supplied.
\<close>

fun trajectory_loop ::
  "params \<Rightarrow> (real \<times> real \<times> real \<Rightarrow> real \<times> real \<times> real \<Rightarrow> real \<times> real \<times> real)
     \<Rightarrow> waypoint list \<Rightarrow> real \<Rightarrow> real \<times> real \<times> real \<Rightarrow> position_ned_yaw option \<Rightarrow> real
     \<Rightarrow> iter_env list \<Rightarrow> loop_state \<Rightarrow> (event list \<times> loop_state) list \<times> bool" where
  "trajectory_loop P g waypoints start_time launch drift climb_start [] s =
     ([], \<not> waypoint_index s < length waypoints)"
| "trajectory_loop P g waypoints start_time launch drift climb_start (env # envs) s =
     (if waypoint_index s < length waypoints then
        (case iteration P g waypoints start_time launch drift climb_start env s of
           (evs, Break, s') \<Rightarrow> ([(evs, s')], True)
         | (evs, Next, s') \<Rightarrow>
             (case trajectory_loop P g waypoints start_time launch drift climb_start envs s' of
                (h, finished) \<Rightarrow> ((evs, s') # h, finished)))
      else ([], True))"

text \<open>The events of the iterations made, in order, and the cursor after each of them.\<close>

definition loop_events :: "(event list \<times> loop_state) list \<Rightarrow> event list" where
  "loop_events h = concat (map fst h)"

definition cursor_history :: "loop_state \<Rightarrow> (event list \<times> loop_state) list \<Rightarrow> nat list" where
  "cursor_history s h = waypoint_index s # map (waypoint_index \<circ> snd) h"

text \<open>
  \<^verbatim>\<open>perform_trajectory\<close>. \<open>climb_start\<close> is the clock reading at entry, \<open>post_result\<close>
  whether the landing call after the loop raises. \<open>None\<close>: the loop has not ended within
  the readings supplied. With no waypoint, \<^verbatim>\<open>waypoints[-1]\<close> raises before the loop.
\<close>

definition initial_state :: loop_state where
  "initial_state =
     \<lparr>waypoint_index = 0, landing_detected = False, in_initial_climb = True,
      initial_climb_completed = False, initial_climb_yaw = None, drift_delta = 0\<rparr>"

definition post_loop :: "params \<Rightarrow> waypoint list \<Rightarrow> loop_state \<Rightarrow> event list" where
  "post_loop P waypoints s =
     (if landing_detected s then []
      else if trajectory_ends_high P waypoints
           then [Stop_offboard_mode, Perform_landing, Wait_for_landing]
           else [Controlled_landing])"

definition perform_trajectory ::
  "params \<Rightarrow> (real \<times> real \<times> real \<Rightarrow> real \<times> real \<times> real \<Rightarrow> real \<times> real \<times> real)
     \<Rightarrow> waypoint list \<Rightarrow> real \<Rightarrow> real \<times> real \<times> real \<Rightarrow> position_ned_yaw option \<Rightarrow> real
     \<Rightarrow> iter_env list \<Rightarrow> py_error option \<Rightarrow> (event list \<times> py_error option) option" where
  "perform_trajectory P g waypoints start_time launch drift climb_start envs post_result =
     (if waypoints = [] then Some ([], Some IndexError)
      else
        (case trajectory_loop P g waypoints start_time launch drift climb_start envs initial_state of
           (h, finished) \<Rightarrow>
             if \<not> finished then None
             else
               let s = (if h = [] then initial_state else snd (last h));
                   evs = loop_events h @ post_loop P waypoints s
               in if landing_detected s then Some (evs @ [Set_color 0 255 0], None)
                  else (case post_result of
                          Some e \<Rightarrow> Some (evs, Some e)
                        | None \<Rightarrow> Some (evs @ [Set_color 0 255 0], None))))"

text \<open>The cursors at which the setpoints of a trace were sent, in order.\<close>

fun sent_at :: "event list \<Rightarrow> nat list" where
  "sent_at [] = []"
| "sent_at (Setpoint i c # evs) = i # sent_at evs"
| "sent_at (e # evs) = sent_at evs"

section \<open>Landing controller\<close>

datatype landed_state = UNKNOWN | ON_GROUND | IN_AIR | TAKING_OFF | LANDING

text \<open>
  What the world supplies during one pass of the descent loop: whether the descent
  setpoint raises, the first sample of the landed-state stream (\<open>Inr None\<close> when it ends
  without one), and the clock reading at the timeout test.
\<close>

record landing_poll =
  descent_result :: "py_error option"
  landed_sample :: "py_error + landed_state option"
  poll_clock :: real

definition descent_command :: "params \<Rightarrow> event" where
  "descent_command P = Command (Set_velocity_ned 0 0 (CONTROLLED_DESCENT_SPEED P) 0)"

text \<open>
  Lines 739 to 763: the \<^verbatim>\<open>while not landing_detected\<close> loop. The result is the events
  and the value of \<open>landing_detected\<close> when the loop is left; \<open>None\<close> when the loop has not
  been left within the passes supplied.
\<close>

fun descent_loop :: "params \<Rightarrow> real \<Rightarrow> landing_poll list \<Rightarrow> (event list \<times> bool) option" where
  "descent_loop P landing_start_time [] = None"
| "descent_loop P landing_start_time (p # ps) =
     (case descent_result p of
        Some e \<Rightarrow> Some ([descent_command P, Set_color 255 0 0], False)
      | None \<Rightarrow>
          (case landed_sample p of
             Inl e \<Rightarrow> Some ([descent_command P, Set_color 255 0 0], False)
           | Inr sample \<Rightarrow>
               if poll_clock p - landing_start_time > LANDING_TIMEOUT P
               then Some ([descent_command P, Stop_offboard_mode, Perform_landing],
                          sample = Some ON_GROUND)
               else if sample = Some ON_GROUND
               then Some ([descent_command P, Sleep (1 / 10)], True)
               else
                 (case descent_loop P landing_start_time ps of
                    None \<Rightarrow> None
                  | Some (evs, detected) \<Rightarrow>
                      Some (descent_command P # Sleep (1 / 10) # evs, detected))))"

text \<open>
  \<^verbatim>\<open>controlled_landing\<close>. \<open>setup\<close> is whether the first descent setpoint, sent before the
  loop, raises: an \<^verbatim>\<open>OffboardError\<close> is caught there (red, \<^verbatim>\<open>return\<close>), any other
  exception leaves the function. \<^verbatim>\<open>stop_offboard_mode\<close>, \<^verbatim>\<open>perform_landing\<close> and
  \<^verbatim>\<open>disarm_drone\<close> catch every exception themselves and are single events.
\<close>

definition controlled_landing ::
  "params \<Rightarrow> real \<Rightarrow> py_error option \<Rightarrow> landing_poll list
     \<Rightarrow> (event list \<times> py_error option) option" where
  "controlled_landing P landing_start_time setup polls =
     (case setup of
        Some e \<Rightarrow>
          if e = OffboardError then Some ([descent_command P, Set_color 255 0 0], None)
          else Some ([descent_command P], Some e)
      | None \<Rightarrow>
          (case descent_loop P landing_start_time polls of
             None \<Rightarrow> None
           | Some (evs, detected) \<Rightarrow>
               Some (descent_command P # evs
                       @ (if detected then [Stop_offboard_mode, Disarm_drone]
                          else [Stop_offboard_mode, Perform_landing])
                       @ [Set_color 0 255 0], None)))"

section \<open>Arm and offboard activator\<close>

text \<open>
  The answer of the position-correction service. A body is not JSON, a JSON object (its
  members taken as numbers), or some other JSON value (array, string, number, null).
\<close>

datatype json_body = Not_json | Json_object "string \<rightharpoonup> real" | Json_other

record response =
  status_code :: int
  body :: json_body

datatype http_outcome = Request_failed | Responded response

text \<open>The two \<^verbatim>\<open>except\<close> clauses of \<^verbatim>\<open>compute_position_drift\<close>.\<close>

definition drift_handler :: "py_error \<Rightarrow> py_error + position_ned_yaw option" where
  "drift_handler e = (if e = RequestException \<or> e = KeyError then Inr None else Inl e)"

text \<open>
  \<^verbatim>\<open>compute_position_drift\<close>. \<^verbatim>\<open>requests.get\<close> raises a \<^verbatim>\<open>RequestException\<close> on a
  timeout or a connection error. \<open>json_error\<close> is the class of the exception that
  \<^verbatim>\<open>response.json()\<close> raises on a body that is not JSON, which the \<^verbatim>\<open>requests\<close>
  library decides. Subscripting a JSON value that is not an object with \<^verbatim>\<open>'x'\<close> raises
  \<^verbatim>\<open>TypeError\<close>.
\<close>

definition compute_position_drift :: "py_error \<Rightarrow> http_outcome \<Rightarrow> py_error + position_ned_yaw option" where
  "compute_position_drift json_error outcome =
     (case outcome of
        Request_failed \<Rightarrow> drift_handler RequestException
      | Responded resp \<Rightarrow>
          if status_code resp = 200 then
            (case body resp of
               Not_json \<Rightarrow> drift_handler json_error
             | Json_other \<Rightarrow> drift_handler TypeError
             | Json_object ned_data \<Rightarrow>
                 (case ned_data ''x'' of
                    None \<Rightarrow> drift_handler KeyError
                  | Some x \<Rightarrow>
                      (case ned_data ''y'' of
                         None \<Rightarrow> drift_handler KeyError
                       | Some y \<Rightarrow>
                           (case ned_data ''z'' of
                              None \<Rightarrow> drift_handler KeyError
                            | Some z \<Rightarrow>
                                Inr (Some \<lparr>north_m = x, east_m = y, down_m = z, yaw_deg = 0\<rparr>)))))
          else Inr None)"

text \<open>
  One run of the body of \<^verbatim>\<open>arming_and_starting_offboard_mode\<close> (the \<^verbatim>\<open>retry\<close>
  decorator of the \<^verbatim>\<open>tenacity\<close> library runs it again when it raises). The result is
  the events, the global \<open>initial_position_drift\<close> afterwards, and the exception raised.
\<close>

record arming_env =
  fetch :: http_outcome
  hold_result :: "py_error option"
  arm_result :: "py_error option"
  seed_result :: "py_error option"
  start_result :: "py_error option"
  disarm_result :: "py_error option"

definition arming_handler ::
  "arming_env \<Rightarrow> event list \<Rightarrow> position_ned_yaw option \<Rightarrow> py_error
     \<Rightarrow> event list \<times> position_ned_yaw option \<times> py_error option" where
  "arming_handler env evs drift e =
     (case disarm_result env of
        Some e' \<Rightarrow> (evs @ [Disarm], drift, Some e')
      | None \<Rightarrow> (evs @ [Disarm, Set_color 255 0 0], drift, Some e))"

definition arming_commands ::
  "arming_env \<Rightarrow> event list \<Rightarrow> position_ned_yaw option
     \<Rightarrow> event list \<times> position_ned_yaw option \<times> py_error option" where
  "arming_commands env evs drift =
     (case hold_result env of
        Some e \<Rightarrow> arming_handler env (evs @ [Hold]) drift e
      | None \<Rightarrow>
     (case arm_result env of
        Some e \<Rightarrow> arming_handler env (evs @ [Hold, Arm]) drift e
      | None \<Rightarrow>
     (case seed_result env of
        Some e \<Rightarrow> arming_handler env (evs @ [Hold, Arm, Command (Set_velocity_body 0 0 0 0)]) drift e
      | None \<Rightarrow>
     (case start_result env of
        Some e \<Rightarrow>
          arming_handler env
            (evs @ [Hold, Arm, Command (Set_velocity_body 0 0 0 0), Offboard_start]) drift e
      | None \<Rightarrow>
          (evs @ [Hold, Arm, Command (Set_velocity_body 0 0 0 0), Offboard_start,
                  Set_color 255 255 255], drift, None)))))"

definition arming_and_starting_offboard_mode ::
  "params \<Rightarrow> py_error \<Rightarrow> bool \<Rightarrow> position_ned_yaw option \<Rightarrow> arming_env
     \<Rightarrow> event list \<times> position_ned_yaw option \<times> py_error option" where
  "arming_and_starting_offboard_mode P json_error home_position initial_position_drift env =
     (if REQUIRE_GLOBAL_POSITION P \<and> home_position then
        (case compute_position_drift json_error (fetch env) of
           Inl e \<Rightarrow> arming_handler env [Set_color 0 255 0] initial_position_drift e
         | Inr drift \<Rightarrow> arming_commands env [Set_color 0 255 0] drift)
      else arming_commands env [Set_color 0 255 0] initial_position_drift)"

section \<open>Sample inputs\<close>

text \<open>
  Concrete rows, waypoints, configuration values and clock readings, used only where a
  statement is evaluated at an input. The general statements are about all inputs.
\<close>

definition position :: "waypoint \<Rightarrow> real \<times> real \<times> real" where
  "position w = (wp_px w, wp_py w, wp_pz w)"

text \<open>
  Modelled from the spec: \<^verbatim>\<open>clamp_led_value\<close> is defined in \<^verbatim>\<open>drone_show_src/utils.py\<close>,
  and the spec has each LED component in the range 0 to 255. The stand-in cuts the number
  of a cell to that range and gives 0 for a cell that holds no number.
\<close>

definition led_sample :: "cell \<Rightarrow> py_error + int" where
  "led_sample c = (case c of Num x \<Rightarrow> Inr (max 0 (min 255 \<lfloor>x\<rfloor>)) | Bad \<Rightarrow> Inr 0 | Null \<Rightarrow> Inr 0)"

definition sample_row :: "real \<Rightarrow> real \<Rightarrow> real \<Rightarrow> real \<Rightarrow> cell \<Rightarrow> row" where
  "sample_row t x y z vx = map_of
     [(''t'', Num t), (''px'', Num x), (''py'', Num y), (''pz'', Num z),
      (''vx'', vx), (''vy'', Num 0), (''vz'', Num 0),
      (''ax'', Num 0), (''ay'', Num 0), (''az'', Num 0),
      (''yaw'', Num 0), (''mode'', Num 70),
      (''ledr'', Num 255), (''ledg'', Num 0), (''ledb'', Num 0)]"

definition sample_waypoint :: "real \<Rightarrow> real \<Rightarrow> real \<Rightarrow> real \<Rightarrow> waypoint" where
  "sample_waypoint t n e d =
     \<lparr>wp_t = t, wp_px = n, wp_py = e, wp_pz = d, wp_vx = 0, wp_vy = 0, wp_vz = 0,
      wp_ax = 0, wp_ay = 0, wp_az = 0, wp_yaw = 0, wp_mode = Num 70,
      wp_ledr = 255, wp_ledg = 0, wp_ledb = 0\<rparr>"

text \<open>One choice of configuration values: no climb time, a climb altitude of 2 m.\<close>

definition sample_params :: params where
  "sample_params =
     \<lparr>DRIFT_CHECK_PERIOD = 1 / 2, GROUND_ALTITUDE_THRESHOLD = 1,
      ENABLE_INITIAL_POSITION_CORRECTION = True,
      INITIAL_CLIMB_ALTITUDE_THRESHOLD = 2, INITIAL_CLIMB_TIME_THRESHOLD = 0,
      INITIAL_CLIMB_MODE = ''BODY_VELOCITY'', INITIAL_CLIMB_VZ_DEFAULT = 1,
      USE_GLOBAL_SETPOINTS = False, FEEDFORWARD_VELOCITY_ENABLED = False,
      FEEDFORWARD_ACCELERATION_ENABLED = False,
      MISSION_PROGRESS_THRESHOLD = 1 / 2, CONTROLLED_LANDING_TIME = 1,
      CONTROLLED_LANDING_ALTITUDE = 3, CONTROLLED_DESCENT_SPEED = 1 / 2,
      LANDING_TIMEOUT = 10, REQUIRE_GLOBAL_POSITION = True\<rparr>"

text \<open>
  A stand-in for \<^verbatim>\<open>pm.ned2geodetic\<close>, which the statements take as a parameter: offsets
  added to the launch reference.
\<close>

definition flat_geodetic :: "real \<times> real \<times> real \<Rightarrow> real \<times> real \<times> real \<Rightarrow> real \<times> real \<times> real" where
  "flat_geodetic pos launch =
     (case pos of (n, e, d) \<Rightarrow> (case launch of (lat, lon, alt) \<Rightarrow> (lat + n, lon + e, alt - d)))"

definition sample_env :: "real \<Rightarrow> py_error option \<Rightarrow> iter_env" where
  "sample_env t r = \<lparr>now = t, attitude = Inr (Some 0), command_result = r, landing_result = None\<rparr>"

definition at_cursor :: "nat \<Rightarrow> loop_state" where
  "at_cursor i =
     \<lparr>waypoint_index = i, landing_detected = False, in_initial_climb = False,
      initial_climb_completed = True, initial_climb_yaw = Some 0, drift_delta = 0\<rparr>"

definition landing_traj :: "waypoint list" where
  "landing_traj = [sample_waypoint 0 0 0 (- 3), sample_waypoint 1 0 0 (- 3), sample_waypoint 10 0 0 0]"

definition climb_traj :: "waypoint list" where
  "climb_traj = [sample_waypoint 0 0 0 0, sample_waypoint 1 0 0 (- 3), sample_waypoint 2 0 0 0]"

definition stalled_traj :: "waypoint list" where
  "stalled_traj = [sample_waypoint 0 0 0 (- 3), sample_waypoint 0 0 0 (- 3), sample_waypoint 1 0 0 0]"




definition half_second_traj :: "waypoint list" where
  "half_second_traj =
     [sample_waypoint 0 0 0 (- 5), sample_waypoint (1 / 2) 0 0 (- 5),
      sample_waypoint 1 0 0 (- 5), sample_waypoint (3 / 2) 0 0 (- 5)]"

definition all_ok :: "http_outcome \<Rightarrow> arming_env" where
  "all_ok r = \<lparr>fetch = r, hold_result = None, arm_result = None, seed_result = None,
               start_result = None, disarm_result = None\<rparr>"

section \<open>Properties of the loader\<close>

lemma bind_err_Inr: "bind_err m f = Inr y \<longleftrightarrow> (\<exists>x. m = Inr x \<and> f x = Inr y)"
  by (cases m) (simp_all add: bind_err_def)

lemma float_at_Inr: "float_at r k = Inr x \<longleftrightarrow> r k = Some (Num x)"
  by (auto simp: float_at_def bind_err_def getitem_def py_float_def split: option.splits cell.splits)

lemma py_float_default_Inr:
  "py_float (get_default r k (Num d)) = Inr x \<longleftrightarrow> (r k = Some (Num x) \<or> r k = None \<and> x = d)"
  by (auto simp: get_default_def py_float_def split: option.splits cell.splits)

lemma row_to_waypoint_position:
  assumes "row_to_waypoint clamp a r = Inr w"
  shows "r ''px'' = Some (Num (wp_px w)) \<and> r ''py'' = Some (Num (wp_py w)) \<and>
         (r ''pz'' = Some (Num (wp_pz w)) \<or> a \<and> r ''pz'' = None \<and> wp_pz w = 0)"
  using assms unfolding row_to_waypoint_def bind_err_Inr
  by (auto simp: float_at_Inr py_float_default_Inr split: if_splits)

lemma sample_row_decodes:
  "row_to_waypoint led_sample a (sample_row t x y z (Num 0)) = Inr (sample_waypoint t x y z)"
  by (simp add: row_to_waypoint_def sample_row_def sample_waypoint_def bind_err_def float_at_def
      getitem_def py_float_def get_default_def led_sample_def)

lemma sample_row_bad:
  "row_to_waypoint led_sample a (sample_row t x y z Bad) = Inl ValueError"
  by (simp add: row_to_waypoint_def sample_row_def bind_err_def float_at_def
      getitem_def py_float_def get_default_def led_sample_def)

lemma collect_rows_map_filter:
  "collect_rows clamp a rows = Inr ws \<Longrightarrow> ws = List.map_filter (decoded clamp a) rows"
proof (induction rows arbitrary: ws)
  case Nil
  then show ?case by (simp add: List.map_filter_simps)
next
  case (Cons r rs)
  show ?case
  proof (cases "row_to_waypoint clamp a r")
    case (Inl e)
    with Cons.prems have "collect_rows clamp a rs = Inr ws"
      by (simp split: if_splits)
    from Cons.IH [OF this] Inl show ?thesis
      by (simp add: List.map_filter_simps decoded_def)
  next
    case (Inr w)
    with Cons.prems obtain ws' where r: "collect_rows clamp a rs = Inr ws'" and w: "ws = w # ws'"
      by (auto split: sum.splits)
    from Cons.IH [OF r] Inr w show ?thesis
      by (simp add: List.map_filter_simps decoded_def)
  qed
qed

text \<open>
  C1, as the code has it. The loader applies no frame conversion. Row by row, in file
  order: the list collected before the origin adjustment holds, for every row that
  decodes, the waypoint of that row, and for no other row anything; and the waypoint of a
  row carries the row's \<^verbatim>\<open>px\<close>, \<^verbatim>\<open>py\<close>, \<^verbatim>\<open>pz\<close> unchanged as north, east and down (down 0
  when the auto-origin branch finds no \<^verbatim>\<open>pz\<close> column). The docstring of
  \<^verbatim>\<open>read_trajectory_file\<close> (lines 323 to 328) still announces a transform from a
  north-west-up frame; the body does not perform one: its comments at lines 367, 372 and
  377 call the columns already NED, and \<open>blender_north_west_up_to_ned\<close> is called nowhere.
\<close>

theorem loader_keeps_stored_position:
  assumes "collect_rows clamp a rows = Inr ws"
  shows "ws = List.map_filter (decoded clamp a) rows \<and>
         (\<forall>r \<in> set rows. \<forall>w. decoded clamp a r = Some w \<longrightarrow>
            r ''px'' = Some (Num (wp_px w)) \<and> r ''py'' = Some (Num (wp_py w)) \<and>
            (r ''pz'' = Some (Num (wp_pz w)) \<or> a \<and> r ''pz'' = None \<and> wp_pz w = 0))"
proof (intro conjI ballI allI impI)
  show "ws = List.map_filter (decoded clamp a) rows"
    by (rule collect_rows_map_filter [OF assms])
next
  fix r w
  assume "decoded clamp a r = Some w"
  then have d: "row_to_waypoint clamp a r = Inr w"
    by (simp add: decoded_def split: sum.splits)
  from row_to_waypoint_position [OF d]
  show "r ''px'' = Some (Num (wp_px w))" "r ''py'' = Some (Num (wp_py w))"
    "r ''pz'' = Some (Num (wp_pz w)) \<or> a \<and> r ''pz'' = None \<and> wp_pz w = 0"
    by blast+
qed

text \<open>
  C1 as the code has it, on a file of two rows: the first, at \<open>(1, 2, 3)\<close>, has a velocity
  cell that is no number and is skipped; the second, at \<open>(5, 6, 7)\<close>, decodes. The list
  collected is the waypoint of the second row alone, with east 6, the row's \<^verbatim>\<open>py\<close>.
\<close>

theorem loader_keeps_stored_position_witness:
  "collect_rows led_sample False [sample_row 0 1 2 3 Bad, sample_row 1 5 6 7 (Num 0)]
     = Inr [sample_waypoint 1 5 6 7]
   \<and> List.map_filter (decoded led_sample False)
        [sample_row 0 1 2 3 Bad, sample_row 1 5 6 7 (Num 0)] = [sample_waypoint 1 5 6 7]
   \<and> sample_row 1 5 6 7 (Num 0) ''py'' = Some (Num (wp_py (sample_waypoint 1 5 6 7)))
   \<and> wp_py (sample_waypoint 1 5 6 7) = 6"
proof -
  let ?rows = "[sample_row 0 1 2 3 Bad, sample_row 1 5 6 7 (Num 0)]"
  have c: "collect_rows led_sample False ?rows = Inr [sample_waypoint 1 5 6 7]"
    by (simp add: sample_row_decodes sample_row_bad)
  have d: "decoded led_sample False (sample_row 1 5 6 7 (Num 0)) = Some (sample_waypoint 1 5 6 7)"
    by (simp add: decoded_def sample_row_decodes)
  from loader_keeps_stored_position [OF c]
  have m: "[sample_waypoint 1 5 6 7] = List.map_filter (decoded led_sample False) ?rows"
    and p: "\<forall>r \<in> set ?rows. \<forall>w. decoded led_sample False r = Some w \<longrightarrow>
              r ''py'' = Some (Num (wp_py w))"
    by blast+
  from p d have "sample_row 1 5 6 7 (Num 0) ''py'' = Some (Num (wp_py (sample_waypoint 1 5 6 7)))"
    by simp
  moreover have "wp_py (sample_waypoint 1 5 6 7) = 6" by (simp add: sample_waypoint_def)
  ultimately show ?thesis using c m by simp
qed

text \<open>
  C1 as stated fails: a file whose only row has \<^verbatim>\<open>px = 1\<close>, \<^verbatim>\<open>py = 2\<close>, \<^verbatim>\<open>pz = 3\<close>,
  loaded with configured origin \<open>(0, 0)\<close>, gives the waypoint at \<open>(1, 2, 3)\<close>, where the
  conversion north = X, east = \<open>-\<close>Y, down = \<open>-\<close>Z would give \<open>(1, -2, -3)\<close>.
\<close>

theorem loader_does_not_convert_counterexample:
  "read_trajectory_file led_sample (Some [sample_row 0 1 2 3 (Num 0)]) False 0 0
     = Inr [sample_waypoint 0 1 2 3] \<and>
   position (sample_waypoint 0 1 2 3) = (1, 2, 3) \<and>
   blender_north_west_up_to_ned 1 2 3 = (1, - 2, - 3) \<and>
   position (sample_waypoint 0 1 2 3) \<noteq> blender_north_west_up_to_ned 1 2 3"
  by (simp add: read_trajectory_file_def sample_row_decodes adjust_waypoints_def
      adjust_waypoint_def sample_waypoint_def position_def blender_north_west_up_to_ned_def)

text \<open>
  C5, at the input where the code departs from it. The first row has a valid position
  \<open>(1, 2, 3)\<close> and a velocity cell that is not a number; the second row is valid, at
  \<open>(5, 6, 7)\<close>. The origin is taken from the first row, the first row is then skipped
  by the row loop, and the loaded trajectory starts at \<open>(4, 4, 4)\<close>, not at the origin.
\<close>

theorem auto_origin_first_row_skipped:
  "read_trajectory_file led_sample (Some [sample_row 0 1 2 3 Bad, sample_row 1 5 6 7 (Num 0)]) True 0 0
     = Inr [sample_waypoint 1 4 4 4] \<and>
   position (sample_waypoint 1 4 4 4) = (4, 4, 4)"
proof -
  have "extract_initial_positions (sample_row 0 1 2 3 Bad) = Inr (1, 2, 3)"
    by (simp add: extract_initial_positions_def bind_err_def float_at_def getitem_def
        py_float_def get_default_def sample_row_def)
  then show ?thesis
    by (simp add: read_trajectory_file_def sample_row_decodes sample_row_bad adjust_waypoints_def
      adjust_waypoint_def sample_waypoint_def position_def)
qed

text \<open>
  In auto-origin mode every loaded waypoint is a collected one shifted by the position of
  the first row of the file; where that first row itself decodes, the load starts at the
  origin.
\<close>

lemma auto_origin_shifts_by_first_row:
  assumes "read_trajectory_file clamp (Some rows) True ix iy = Inr ws"
  shows "\<exists>n e d raws. extract_initial_positions (hd rows) = Inr (n, e, d) \<and>
           collect_rows clamp True rows = Inr raws \<and> ws = map (adjust_waypoint n e d) raws"
  using assms
  by (auto simp: read_trajectory_file_def adjust_waypoints_def split: if_splits sum.splits)

lemma auto_origin_when_first_row_decodes:
  assumes "read_trajectory_file clamp (Some rows) True ix iy = Inr ws"
    and "row_to_waypoint clamp True (hd rows) = Inr w0"
  shows "ws \<noteq> [] \<and> position (hd ws) = (0, 0, 0)"
proof -
  from assms(1) have ne: "rows \<noteq> []"
    by (auto simp: read_trajectory_file_def split: if_splits)
  then obtain r rs where rows: "rows = r # rs" by (cases rows) auto
  from assms(2) rows have dec: "row_to_waypoint clamp True r = Inr w0" by simp
  from row_to_waypoint_position [OF dec]
  have ex: "extract_initial_positions r = Inr (wp_px w0, wp_py w0, wp_pz w0)"
    by (auto simp: extract_initial_positions_def bind_err_def float_at_def getitem_def
        py_float_def get_default_def)
  from assms(1) rows dec ex show ?thesis
    by (auto simp: read_trajectory_file_def adjust_waypoints_def adjust_waypoint_def position_def
        split: sum.splits)
qed

text \<open>
  C6. In configured-origin mode with offsets \<open>(ox, oy)\<close>, the first sample of a non-empty
  loaded trajectory is the first collected sample shifted by \<open>ox\<close> in north and \<open>oy\<close> in
  east, with its down coordinate unchanged.
\<close>

theorem configured_origin_first_sample:
  assumes "read_trajectory_file clamp (Some rows) False ox oy = Inr (w # ws)"
  shows "\<exists>raw raws. collect_rows clamp False rows = Inr (raw # raws) \<and>
           position w = (wp_px raw - ox, wp_py raw - oy, wp_pz raw)"
  using assms
  by (auto simp: read_trajectory_file_def adjust_waypoints_def adjust_waypoint_def position_def
      split: if_splits sum.splits)

text \<open>
  C6 on a file of one row at \<open>(1, 2, 3)\<close> with configured offsets \<open>(10, 20)\<close>: the
  loaded sample is at \<open>(-9, -18, 3)\<close>.
\<close>

theorem configured_origin_first_sample_witness:
  "read_trajectory_file led_sample (Some [sample_row 0 1 2 3 (Num 0)]) False 10 20
     = Inr [sample_waypoint 0 (- 9) (- 18) 3] \<and>
   position (sample_waypoint 0 (- 9) (- 18) 3) = (1 - 10, 2 - 20, 3)"
proof -
  have r: "read_trajectory_file led_sample (Some [sample_row 0 1 2 3 (Num 0)]) False 10 20
     = Inr [sample_waypoint 0 (- 9) (- 18) 3]"
    by (simp add: read_trajectory_file_def sample_row_decodes adjust_waypoints_def
      adjust_waypoint_def sample_waypoint_def)
  from configured_origin_first_sample [OF r] obtain raw raws where
    "collect_rows led_sample False [sample_row 0 1 2 3 (Num 0)] = Inr (raw # raws)"
    "position (sample_waypoint 0 (- 9) (- 18) 3) = (wp_px raw - 10, wp_py raw - 20, wp_pz raw)"
    by blast
  then have "position (sample_waypoint 0 (- 9) (- 18) 3) = (1 - 10, 2 - 20, 3)"
    by (auto simp: sample_row_decodes sample_waypoint_def)
  with r show ?thesis by simp
qed

section \<open>Properties of double rounding\<close>

lemma pow2_powr: "pow2 e = 2 powr (of_int e)"
  by (simp add: pow2_def powr_int)

lemma pow2_pos: "0 < pow2 e"
  by (simp add: pow2_powr)

lemma pow2_mono: "a \<le> b \<Longrightarrow> pow2 a \<le> pow2 b"
  by (simp add: pow2_powr)

lemma pow2_add: "pow2 (a + b) = pow2 a * pow2 b"
  by (simp add: pow2_powr powr_add)

lemma pow2_nat: "0 \<le> e \<Longrightarrow> pow2 e = of_int (2 ^ nat e)"
  by (simp add: pow2_def)

text \<open>The exponent of a positive number is the integer part of its binary logarithm.\<close>

lemma exponent_binade:
  assumes "pow2 e \<le> x" and "x < pow2 (e + 1)"
  shows "exponent x = e"
proof (cases "1 \<le> x")
  case True
  have e0: "0 \<le> e"
  proof (rule ccontr)
    assume "\<not> 0 \<le> e"
    then have "e + 1 \<le> 0" by simp
    from pow2_mono [OF this] have "pow2 (e + 1) \<le> 1" by (simp add: pow2_def)
    with assms(2) True show False by simp
  qed
  from True have fpos: "0 < \<lfloor>x\<rfloor>" by simp
  from assms(1) e0 have lo: "pow2 e \<le> of_int \<lfloor>x\<rfloor>"
    by (simp add: pow2_nat le_floor_iff)
  have hi: "of_int \<lfloor>x\<rfloor> < pow2 (e + 1)"
    using assms(2) by (meson of_int_floor_le order_le_less_trans)
  from lo hi fpos have "\<lfloor>log 2 (of_int \<lfloor>x\<rfloor>)\<rfloor> = e"
    using floor_log_eq_powr_iff [of "of_int \<lfloor>x\<rfloor>" 2 e] by (simp add: pow2_powr)
  with fpos True show ?thesis by (simp add: exponent_def bitlen_alt_def)
next
  case False
  from assms(1) pow2_pos [of e] have pos: "0 < x" by linarith
  have eneg: "e < 0"
  proof (rule ccontr)
    assume "\<not> e < 0"
    then have "0 \<le> e" by simp
    from pow2_mono [OF this] have "1 \<le> pow2 e" by (simp add: pow2_def)
    with assms(1) False show False by simp
  qed
  define p where "p = - e"
  have p1: "1 \<le> p" using eneg by (simp add: p_def)
  let ?y = "1 / x"
  let ?c = "\<lceil>?y\<rceil>"
  have inv1: "pow2 e * pow2 p = 1"
    using pow2_add [of e p] by (simp add: p_def pow2_def)
  have inv2: "pow2 (e + 1) * pow2 (p - 1) = 1"
    using pow2_add [of "e + 1" "p - 1"] by (simp add: p_def pow2_def)
  have yle: "?y \<le> pow2 p"
  proof -
    from assms(1) have "pow2 e * pow2 p \<le> x * pow2 p"
      by (simp add: mult_right_mono pow2_pos less_imp_le)
    with inv1 pos show ?thesis by (simp add: field_simps)
  qed
  have ygt: "pow2 (p - 1) < ?y"
  proof -
    from assms(2) have "x * pow2 (p - 1) < pow2 (e + 1) * pow2 (p - 1)"
      by (simp add: pow2_pos)
    with inv2 pos show ?thesis by (simp add: field_simps)
  qed
  have cle: "of_int ?c \<le> pow2 p"
  proof -
    from yle p1 have "?y \<le> of_int (2 ^ nat p)" by (simp add: pow2_nat)
    then have "?c \<le> 2 ^ nat p" by (simp only: ceiling_le_iff)
    then have "of_int ?c \<le> (of_int (2 ^ nat p) :: real)" by (simp only: of_int_le_iff)
    with p1 show ?thesis by (simp add: pow2_nat)
  qed
  have cgt: "pow2 (p - 1) < of_int ?c"
    using ygt by (meson le_of_int_ceiling less_le_trans)
  have "of_int (2 ^ nat (p - 1)) < (of_int ?c :: real)"
    using cgt p1 by (simp add: pow2_nat)
  then have "2 ^ nat (p - 1) < ?c" by (simp only: of_int_less_iff)
  then have c1: "2 ^ nat (p - 1) \<le> ?c - 1" by simp
  then have cpos: "0 < ?c - 1"
    by (smt (verit) zero_less_power)
  from c1 p1 have lo: "pow2 (p - 1) \<le> of_int (?c - 1)"
  proof -
    from c1 have "(of_int (2 ^ nat (p - 1)) :: real) \<le> of_int (?c - 1)"
      by (simp only: of_int_le_iff)
    with p1 show ?thesis by (simp add: pow2_nat)
  qed
  have hi: "of_int (?c - 1) < pow2 ((p - 1) + 1)"
    using cle by simp
  from lo hi cpos have "\<lfloor>log 2 (of_int (?c - 1))\<rfloor> = p - 1"
    using floor_log_eq_powr_iff [of "of_int (?c - 1)" 2 "p - 1"]
    by (simp add: pow2_powr)
  with cpos have "bitlen (?c - 1) = p" by (simp add: bitlen_alt_def)
  with False show ?thesis by (simp add: exponent_def p_def)
qed



lemma round_half_even_nearest:
  assumes "of_int n - 1 / 2 < y" and "y < of_int n + 1 / 2"
  shows "round_half_even y = n"
proof (cases "of_int n \<le> y")
  case True
  with assms have f: "\<lfloor>y\<rfloor> = n" by (simp add: floor_eq_iff)
  with assms show ?thesis by (simp add: round_half_even_def Let_def)
next
  case False
  with assms have f: "\<lfloor>y\<rfloor> = n - 1" by (simp add: floor_eq_iff)
  with assms False show ?thesis by (simp add: round_half_even_def Let_def)
qed

lemma round_double_binade:
  assumes "pow2 e \<le> x" and "x < pow2 (e + 1)"
  shows "round_double x = of_int (round_half_even (x / pow2 (e - 52))) * pow2 (e - 52)"
proof -
  from assms(1) pow2_pos [of e] have pos: "0 < x" by linarith
  from exponent_binade [OF assms] pos show ?thesis
    by (simp add: round_double_def Let_def)
qed

lemma round_double_zero [simp]: "round_double 0 = 0"
  by (simp add: round_double_def)

lemma round_double_one [simp]: "round_double 1 = 1"
proof -
  have "round_double 1 = of_int (round_half_even (1 / pow2 (0 - 52))) * pow2 (0 - 52)"
    by (rule round_double_binade) (simp_all add: pow2_def)
  also have "1 / pow2 (0 - 52) = of_int (2 ^ 52)" by (simp add: pow2_def)
  also have "round_half_even (of_int (2 ^ 52)) = 2 ^ 52"
    by (rule round_half_even_nearest) simp_all
  finally show ?thesis by (simp add: pow2_def)
qed

lemma double_div_zero [simp]: "double_div 0 y = 0"
  by (simp add: double_div_def)

lemma double_div_self [simp]: "x \<noteq> 0 \<Longrightarrow> double_div x x = 1"
  by (simp add: double_div_def)



section \<open>Properties of the execution loop\<close>

lemmas sample_defs = sample_params_def flat_geodetic_def sample_env_def at_cursor_def
  sample_waypoint_def

lemmas engine_defs = iteration_def dispatch_iteration_def landing_decision_def drift_skip_def
  dispatch_command_def initial_climb_def send_climb_def climb_gate_def loop_handler_def
  corrected_position_def csv_step_def trajectory_ends_high_def final_altitude_def
  DRIFT_CATCHUP_MAX_SEC_def AHEAD_SLEEP_STEP_SEC_def py_int_def Let_def

lemma eval_landing_boundary:
  "iteration sample_params flat_geodetic landing_traj 0 (0, 0, 0) None 0 (sample_env 1 None) (at_cursor 1)
     = ([Set_color 255 0 0, Setpoint 1 (Set_position_ned 0 0 (- 3) (Some 0)), Set_color 255 0 0],
        Next, (at_cursor 2)\<lparr>drift_delta := 0\<rparr>)"
  by (simp add: engine_defs sample_defs landing_traj_def)

lemma eval_landing_end:
  "iteration sample_params flat_geodetic landing_traj 0 (0, 0, 0) None 0 (sample_env 10 None) (at_cursor 2)
     = ([Set_color 255 0 0, Setpoint 2 (Set_position_ned 0 0 0 (Some 0)), Set_color 255 0 0,
         Controlled_landing],
        Break, (at_cursor 2)\<lparr>landing_detected := True\<rparr>)"
  by (simp add: engine_defs sample_defs landing_traj_def)

lemma eval_climb_error:
  "iteration sample_params flat_geodetic climb_traj 0 (0, 0, 0) None 0
       (sample_env 0 (Some OffboardError)) initial_state
     = ([Set_color 255 0 0, Setpoint 0 (Set_velocity_body 0 0 (- 1) 0), Set_color 255 0 0],
        Break, initial_state\<lparr>initial_climb_yaw := Some 0\<rparr>)"
  by (simp add: engine_defs sample_defs climb_traj_def initial_state_def)

lemma eval_stalled:
  "iteration sample_params flat_geodetic stalled_traj 0 (0, 0, 0) None 0 (sample_env 0 None) initial_state
     = ([Set_color 255 0 0, Set_color 255 0 0],
        Break, initial_state\<lparr>in_initial_climb := False, initial_climb_completed := True\<rparr>)"
  by (simp add: engine_defs sample_defs stalled_traj_def initial_state_def)

lemma climb_gate_fields [simp]:
  "waypoint_index (climb_gate P tic z s) = waypoint_index s"
  "drift_delta (climb_gate P tic z s) = drift_delta s"
  "landing_detected (climb_gate P tic z s) = landing_detected s"
  "initial_climb_yaw (climb_gate P tic z s) = initial_climb_yaw s"
  by (simp_all add: climb_gate_def Let_def)

lemma climb_gate_in_climb:
  "in_initial_climb (climb_gate P tic z s) \<longleftrightarrow>
     \<not> initial_climb_completed s \<and>
     (- z < INITIAL_CLIMB_ALTITUDE_THRESHOLD P \<or> tic < INITIAL_CLIMB_TIME_THRESHOLD P)"
  by (simp add: climb_gate_def Let_def)

lemma sent_at_append [simp]: "sent_at (xs @ ys) = sent_at xs @ sent_at ys"
  by (induction xs rule: sent_at.induct) simp_all

lemma drift_skip_bounds:
  assumes "drift_skip d step i n = Inr j" and "i < n"
  shows "i \<le> j \<and> j \<le> n - 1"
  using assms by (auto simp: drift_skip_def Let_def split: if_splits)

lemma send_climb_cursor:
  assumes "send_climb env evs c s = (evs', k, s')"
  shows "waypoint_index s \<le> waypoint_index s' \<and> sent_at evs' = sent_at evs @ [waypoint_index s]
         \<and> landing_detected s' = landing_detected s"
  using assms by (auto simp: send_climb_def loop_handler_def split: option.splits)

lemma initial_climb_cursor:
  assumes "initial_climb P env evs w pos s = (evs', k, s')"
  shows "waypoint_index s \<le> waypoint_index s' \<and>
         (sent_at evs' = sent_at evs @ [waypoint_index s] \<or> sent_at evs' = sent_at evs)"
proof (cases "INITIAL_CLIMB_MODE P = ''BODY_VELOCITY''")
  case True
  with assms show ?thesis
    by (auto simp: initial_climb_def Let_def dest!: send_climb_cursor split: option.splits)
next
  case False
  with assms show ?thesis
    by (auto simp: initial_climb_def loop_handler_def dest!: send_climb_cursor
        split: option.splits sum.splits prod.splits)
qed

lemma landing_decision_cursor:
  assumes "landing_decision P wps env evs t a s = (evs', k, s')"
  shows "waypoint_index s \<le> waypoint_index s' \<and> sent_at evs' = sent_at evs"
  using assms
  by (auto simp: landing_decision_def Let_def loop_handler_def split: if_splits option.splits)

lemma dispatch_iteration_cursor:
  assumes "dispatch_iteration P g wps launch drift env evs s = (evs', k, s')"
    and "waypoint_index s < length wps"
  shows "waypoint_index s \<le> waypoint_index s' \<and>
         (sent_at evs' = sent_at evs \<or>
          (\<exists>j. sent_at evs' = sent_at evs @ [j] \<and> waypoint_index s \<le> j \<and> j \<le> length wps - 1
                \<and> j \<le> waypoint_index s'))"
proof (cases "drift_skip (drift_delta s) (csv_step P wps) (waypoint_index s) (length wps)")
  case (Inl e)
  with assms show ?thesis by (auto simp: dispatch_iteration_def loop_handler_def)
next
  case (Inr j)
  from drift_skip_bounds [OF Inr assms(2)] have b: "waypoint_index s \<le> j" "j \<le> length wps - 1"
    by auto
  show ?thesis
  proof (cases "command_result env")
    case None
    with assms Inr b show ?thesis
      by (auto simp: dispatch_iteration_def Let_def dest!: landing_decision_cursor)
  next
    case (Some e)
    with assms Inr b show ?thesis
      by (auto simp: dispatch_iteration_def Let_def loop_handler_def)
  qed
qed

lemma iteration_cursor:
  assumes "iteration P g wps start launch drift cs env s = (evs', k, s')"
    and "waypoint_index s < length wps"
  shows "waypoint_index s \<le> waypoint_index s' \<and>
         (sent_at evs' = [] \<or>
          (\<exists>j. sent_at evs' = [j] \<and> waypoint_index s \<le> j \<and> j \<le> length wps - 1
                \<and> j \<le> waypoint_index s'))"
proof (cases "now env - start - wp_t (wps ! waypoint_index s) \<ge> 0")
  case False
  with assms show ?thesis
    by (auto simp: iteration_def Let_def split: if_splits)
next
  case True
  let ?w = "wps ! waypoint_index s"
  let ?s1 = "climb_gate P (now env - cs) (snd (snd (corrected_position P drift ?w)))
               (s\<lparr>drift_delta := now env - start - wp_t ?w\<rparr>)"
  let ?evs = "[Set_color (wp_ledr ?w) (wp_ledg ?w) (wp_ledb ?w)]"
  show ?thesis
  proof (cases "in_initial_climb ?s1")
    case c: True
    with True assms have "initial_climb P env ?evs ?w (corrected_position P drift ?w) ?s1 = (evs', k, s')"
      by (simp add: iteration_def Let_def)
    from initial_climb_cursor [OF this] assms(2) show ?thesis by auto
  next
    case c: False
    with True assms have "dispatch_iteration P g wps launch drift env ?evs ?s1 = (evs', k, s')"
      by (simp add: iteration_def Let_def)
    from dispatch_iteration_cursor [OF this] assms(2) show ?thesis by auto
  qed
qed

text \<open>
  C4. Over any number of iterations of the loop, from any state: the cursor after each
  iteration is never below the cursor before it; the cursors at which setpoints are sent
  form a non-decreasing sequence; and each of them, the target of a drift skip included,
  is at most the last index \<open>length wps - 1\<close>. The statement covers every prefix of a
  run, whether or not the loop has ended within it.
\<close>

theorem cursor_never_decreases:
  assumes "trajectory_loop P g wps start launch drift cs envs s = (h, fin)"
  shows "sorted (cursor_history s h) \<and> sorted (sent_at (loop_events h)) \<and>
         (\<forall>j \<in> set (sent_at (loop_events h)). waypoint_index s \<le> j \<and> j \<le> length wps - 1)"
  using assms
proof (induction envs arbitrary: s h fin)
  case Nil
  then show ?case by (simp add: cursor_history_def loop_events_def)
next
  case (Cons env envs)
  show ?case
  proof (cases "waypoint_index s < length wps")
    case False
    with Cons.prems show ?thesis by (simp add: cursor_history_def loop_events_def)
  next
    case True
    obtain evs k s' where it: "iteration P g wps start launch drift cs env s = (evs, k, s')"
      by (cases "iteration P g wps start launch drift cs env s") auto
    from iteration_cursor [OF it True]
    have le: "waypoint_index s \<le> waypoint_index s'"
      and sent: "sent_at evs = [] \<or>
          (\<exists>j. sent_at evs = [j] \<and> waypoint_index s \<le> j \<and> j \<le> length wps - 1
                \<and> j \<le> waypoint_index s')"
      by auto
    show ?thesis
    proof (cases k)
      case Break
      with Cons.prems True it have h: "h = [(evs, s')]" by simp
      with le sent show ?thesis by (auto simp: cursor_history_def loop_events_def)
    next
      case Next
      obtain h' fin' where rest: "trajectory_loop P g wps start launch drift cs envs s' = (h', fin')"
        by (cases "trajectory_loop P g wps start launch drift cs envs s'") auto
      with Cons.prems True it Next have h: "h = (evs, s') # h'" by simp
      from Cons.IH [OF rest]
      have ih: "sorted (cursor_history s' h')" "sorted (sent_at (loop_events h'))"
        "\<forall>j \<in> set (sent_at (loop_events h')). waypoint_index s' \<le> j \<and> j \<le> length wps - 1"
        by auto
      have 1: "sorted (cursor_history s h)"
        using ih(1) le h by (fastforce simp: cursor_history_def)
      have ev: "sent_at (loop_events h) = sent_at evs @ sent_at (loop_events h')"
        using h by (simp add: loop_events_def)
      have 2: "sorted (sent_at (loop_events h))"
        using sent ih(2,3) unfolding ev by (auto simp: sorted_append)
      have 3: "\<forall>j \<in> set (sent_at (loop_events h)). waypoint_index s \<le> j \<and> j \<le> length wps - 1"
        using sent ih(3) le unfolding ev by auto
      from 1 2 3 show ?thesis by simp
    qed
  qed
qed

lemma eval_run:
  "trajectory_loop sample_params flat_geodetic half_second_traj 0 (0, 0, 0) None 0
     [sample_env 0 None, sample_env 5 None, sample_env (51 / 10) None] initial_state
   = ([([Set_color 255 0 0, Setpoint 0 (Set_position_ned 0 0 (- 5) (Some 0)), Set_color 255 0 0],
        initial_state\<lparr>waypoint_index := 1, in_initial_climb := False,
          initial_climb_completed := True, drift_delta := 0\<rparr>),
       ([Set_color 255 0 0, Setpoint 2 (Set_position_ned 0 0 (- 5) (Some 0)), Set_color 255 0 0],
        initial_state\<lparr>waypoint_index := 3, in_initial_climb := False,
          initial_climb_completed := True, drift_delta := 9 / 2\<rparr>),
       ([Set_color 255 0 0, Setpoint 3 (Set_position_ned 0 0 (- 5) (Some 0)), Set_color 255 0 0],
        initial_state\<lparr>waypoint_index := 4, in_initial_climb := False,
          initial_climb_completed := True, drift_delta := 18 / 5\<rparr>)], True)"
  by (simp add: engine_defs sample_defs half_second_traj_def initial_state_def)

text \<open>
  C4 on a run of three iterations over four waypoints half a second apart, the start
  time five seconds in the past at the second reading: the cursor goes 0, 1, 3, 4 and the
  setpoints are sent at 0, 2, 3.
\<close>

theorem cursor_never_decreases_witness:
  "cursor_history initial_state
     (fst (trajectory_loop sample_params flat_geodetic half_second_traj 0 (0, 0, 0) None 0
        [sample_env 0 None, sample_env 5 None, sample_env (51 / 10) None] initial_state))
     = [0, 1, 3, 4]
   \<and> sent_at (loop_events
     (fst (trajectory_loop sample_params flat_geodetic half_second_traj 0 (0, 0, 0) None 0
        [sample_env 0 None, sample_env 5 None, sample_env (51 / 10) None] initial_state)))
     = [0, 2, 3]
   \<and> sorted (sent_at (loop_events
     (fst (trajectory_loop sample_params flat_geodetic half_second_traj 0 (0, 0, 0) None 0
        [sample_env 0 None, sample_env 5 None, sample_env (51 / 10) None] initial_state))))"
proof -
  from cursor_never_decreases [OF eval_run]
  have "sorted (sent_at (loop_events
     (fst (trajectory_loop sample_params flat_geodetic half_second_traj 0 (0, 0, 0) None 0
        [sample_env 0 None, sample_env 5 None, sample_env (51 / 10) None] initial_state))))"
    unfolding eval_run by simp
  then show ?thesis
    unfolding eval_run by (simp add: cursor_history_def loop_events_def initial_state_def)
qed

lemma csv_step_single: "csv_step P [w] = DRIFT_CHECK_PERIOD P"
  by (simp add: csv_step_def)





text \<open>An on-time iteration whose climb gate is passed is the dispatch part.\<close>

lemma iteration_dispatch:
  assumes "0 \<le> now env - start - wp_t (wps ! waypoint_index s)"
    and "initial_climb_completed s \<or>
          \<not> - snd (snd (corrected_position P drift (wps ! waypoint_index s)))
                < INITIAL_CLIMB_ALTITUDE_THRESHOLD P \<and>
          \<not> now env - cs < INITIAL_CLIMB_TIME_THRESHOLD P"
  shows "iteration P g wps start launch drift cs env s =
           dispatch_iteration P g wps launch drift env
             [Set_color (wp_ledr (wps ! waypoint_index s)) (wp_ledg (wps ! waypoint_index s))
                (wp_ledb (wps ! waypoint_index s))]
             (climb_gate P (now env - cs)
                (snd (snd (corrected_position P drift (wps ! waypoint_index s))))
                (s\<lparr>drift_delta := now env - start - wp_t (wps ! waypoint_index s)\<rparr>))"
  using assms by (auto simp: iteration_def Let_def climb_gate_in_climb)






lemma landing_decision_trigger:
  assumes "Controlled_landing \<notin> set evs"
    and "landing_decision P wps env evs t a s = (evs', k, s')"
  shows "(Controlled_landing \<in> set evs') =
           (real (waypoint_index s + 1) / real (length wps) \<ge> MISSION_PROGRESS_THRESHOLD P \<and>
            final_altitude wps \<le> GROUND_ALTITUDE_THRESHOLD P \<and>
            (wp_t (last wps) - t \<le> CONTROLLED_LANDING_TIME P \<or> a < CONTROLLED_LANDING_ALTITUDE P))
         \<and> ((Controlled_landing \<in> set evs') = (k = Break))"
  using assms
  by (auto simp: landing_decision_def Let_def loop_handler_def trajectory_ends_high_def
      split: if_splits option.splits)

text \<open>
  C2, as the code has it. In an iteration that reaches the landing decision (on time or
  late, climb gate passed, the drift skip leaving the cursor at \<open>j\<close>, the setpoint sent
  without an error), the landing controller is called if and only if the progress
  \<open>(j + 1) / N\<close> is at least the mission-progress threshold, the final altitude is at most
  the ground threshold, and the time to the end is at most the landing-time threshold or
  the setpoint altitude is strictly below the landing-altitude threshold. The loop stops
  in that iteration exactly when the controller is called.
\<close>

theorem landing_trigger_condition:
  assumes cursor: "waypoint_index s < length wps"
    and on_time: "0 \<le> now env - start - wp_t (wps ! waypoint_index s)"
    and gate: "initial_climb_completed s \<or>
          \<not> - snd (snd (corrected_position P drift (wps ! waypoint_index s)))
                < INITIAL_CLIMB_ALTITUDE_THRESHOLD P \<and>
          \<not> now env - cs < INITIAL_CLIMB_TIME_THRESHOLD P"
    and skip: "drift_skip (now env - start - wp_t (wps ! waypoint_index s)) (csv_step P wps)
                 (waypoint_index s) (length wps) = Inr j"
    and sent: "command_result env = None"
    and result: "iteration P g wps start launch drift cs env s = (evs, k, s')"
  shows "((Controlled_landing \<in> set evs) =
           (real (j + 1) / real (length wps) \<ge> MISSION_PROGRESS_THRESHOLD P \<and>
            final_altitude wps \<le> GROUND_ALTITUDE_THRESHOLD P \<and>
            (wp_t (last wps) - wp_t (wps ! j) \<le> CONTROLLED_LANDING_TIME P \<or>
             - snd (snd (corrected_position P drift (wps ! j))) < CONTROLLED_LANDING_ALTITUDE P)))
         \<and> ((Controlled_landing \<in> set evs) = (k = Break))"
proof -
  let ?w = "wps ! j"
  let ?pos = "corrected_position P drift ?w"
  let ?s1 = "climb_gate P (now env - cs)
                (snd (snd (corrected_position P drift (wps ! waypoint_index s))))
                (s\<lparr>drift_delta := now env - start - wp_t (wps ! waypoint_index s)\<rparr>)"
  let ?evs = "[Set_color (wp_ledr (wps ! waypoint_index s)) (wp_ledg (wps ! waypoint_index s))
                (wp_ledb (wps ! waypoint_index s)),
               Setpoint j (dispatch_command P g launch ?w ?pos),
               Set_color (wp_ledr ?w) (wp_ledg ?w) (wp_ledb ?w)]"
  have n: "Controlled_landing \<notin> set ?evs" by simp
  have idx: "waypoint_index (?s1\<lparr>waypoint_index := j\<rparr>) = j" by simp
  from result have "landing_decision P wps env ?evs (wp_t ?w) (- snd (snd ?pos))
                      (?s1\<lparr>waypoint_index := j\<rparr>) = (evs, k, s')"
    unfolding iteration_dispatch [OF on_time gate]
    using skip sent by (simp add: dispatch_iteration_def Let_def)
  from landing_decision_trigger [OF n this] show ?thesis unfolding idx .
qed

text \<open>
  C2 at the last waypoint of a three-waypoint trajectory that ends on the ground: the
  time to the end is 0, the controller is called and the loop stops.
\<close>

theorem landing_trigger_condition_witness:
  "iteration sample_params flat_geodetic landing_traj 0 (0, 0, 0) None 0 (sample_env 10 None) (at_cursor 2)
     = ([Set_color 255 0 0, Setpoint 2 (Set_position_ned 0 0 0 (Some 0)), Set_color 255 0 0,
         Controlled_landing],
        Break, (at_cursor 2)\<lparr>landing_detected := True\<rparr>)
   \<and> MISSION_PROGRESS_THRESHOLD sample_params \<le> real (2 + 1) / real (length landing_traj)
   \<and> final_altitude landing_traj \<le> GROUND_ALTITUDE_THRESHOLD sample_params
   \<and> (wp_t (last landing_traj) - wp_t (landing_traj ! 2) \<le> CONTROLLED_LANDING_TIME sample_params
        \<or> - snd (snd (corrected_position sample_params None (landing_traj ! 2)))
             < CONTROLLED_LANDING_ALTITUDE sample_params)"
proof -
  have 1: "waypoint_index (at_cursor 2) < length landing_traj"
    by (simp add: at_cursor_def landing_traj_def)
  have 2: "0 \<le> now (sample_env 10 None) - 0 - wp_t (landing_traj ! waypoint_index (at_cursor 2))"
    by (simp add: sample_defs landing_traj_def)
  have 3: "initial_climb_completed (at_cursor 2) \<or>
          \<not> - snd (snd (corrected_position sample_params None (landing_traj ! waypoint_index (at_cursor 2))))
                < INITIAL_CLIMB_ALTITUDE_THRESHOLD sample_params \<and>
          \<not> now (sample_env 10 None) - 0 < INITIAL_CLIMB_TIME_THRESHOLD sample_params"
    by (simp add: at_cursor_def)
  have 4: "drift_skip (now (sample_env 10 None) - 0 - wp_t (landing_traj ! waypoint_index (at_cursor 2)))
             (csv_step sample_params landing_traj) (waypoint_index (at_cursor 2)) (length landing_traj)
           = Inr 2"
    by (simp add: engine_defs sample_defs landing_traj_def)
  have 5: "command_result (sample_env 10 None) = None" by (simp add: sample_env_def)
  from landing_trigger_condition [OF 1 2 3 4 5 eval_landing_end]
  show ?thesis using eval_landing_end by simp
qed

text \<open>
  C2 as stated fails where the setpoint altitude equals the landing-altitude threshold.
  At cursor 1 of the same trajectory the progress is 2/3 (threshold 1/2), the final
  altitude 0 (ground threshold 1), the time to the end 9 s (threshold 1 s) and the
  setpoint altitude 3 m, equal to the threshold of 3 m: the condition of the claim holds,
  and the iteration calls no landing and goes on to cursor 2.
\<close>

theorem landing_altitude_boundary_counterexample:
  "iteration sample_params flat_geodetic landing_traj 0 (0, 0, 0) None 0 (sample_env 1 None) (at_cursor 1)
     = ([Set_color 255 0 0, Setpoint 1 (Set_position_ned 0 0 (- 3) (Some 0)), Set_color 255 0 0],
        Next, (at_cursor 2)\<lparr>drift_delta := 0\<rparr>)
   \<and> MISSION_PROGRESS_THRESHOLD sample_params \<le> real (1 + 1) / real (length landing_traj)
   \<and> final_altitude landing_traj \<le> GROUND_ALTITUDE_THRESHOLD sample_params
   \<and> - wp_pz (landing_traj ! 1) \<le> CONTROLLED_LANDING_ALTITUDE sample_params"
proof -
  have "MISSION_PROGRESS_THRESHOLD sample_params \<le> real (1 + 1) / real (length landing_traj)"
    by (simp add: sample_params_def landing_traj_def)
  moreover have "final_altitude landing_traj \<le> GROUND_ALTITUDE_THRESHOLD sample_params"
    by (simp add: final_altitude_def sample_defs landing_traj_def)
  moreover have "- wp_pz (landing_traj ! 1) \<le> CONTROLLED_LANDING_ALTITUDE sample_params"
    by (simp add: sample_defs landing_traj_def)
  ultimately show ?thesis using eval_landing_boundary by simp
qed

text \<open>
  C8, as the code has it. When the setpoint call of an initial-climb iteration raises,
  the iteration turns the indicator red and leaves the loop: the loop ends with that
  iteration, whatever clock readings would follow, with the cursor where it was and no
  landing recorded, and the landing handling after the loop runs next (native landing
  when the trajectory ends high, the landing controller otherwise).
\<close>

theorem climb_command_error_ends_loop:
  assumes cursor: "waypoint_index s < length wps"
    and on_time: "0 \<le> now env - start - wp_t (wps ! waypoint_index s)"
    and climbing: "\<not> initial_climb_completed s"
      "- snd (snd (corrected_position P drift (wps ! waypoint_index s)))
           < INITIAL_CLIMB_ALTITUDE_THRESHOLD P
       \<or> now env - cs < INITIAL_CLIMB_TIME_THRESHOLD P"
    and error: "command_result env = Some e"
    and airborne: "\<not> landing_detected s"
  shows "\<exists>evs s'. trajectory_loop P g wps start launch drift cs (env # envs) s = ([(evs, s')], True)
           \<and> last evs = Set_color 255 0 0 \<and> waypoint_index s' = waypoint_index s
           \<and> \<not> landing_detected s'
           \<and> post_loop P wps s'
                = (if trajectory_ends_high P wps
                   then [Stop_offboard_mode, Perform_landing, Wait_for_landing]
                   else [Controlled_landing])"
proof -
  let ?w = "wps ! waypoint_index s"
  let ?s1 = "climb_gate P (now env - cs) (snd (snd (corrected_position P drift ?w)))
                (s\<lparr>drift_delta := now env - start - wp_t ?w\<rparr>)"
  let ?evs = "[Set_color (wp_ledr ?w) (wp_ledg ?w) (wp_ledb ?w)]"
  from climbing have c: "in_initial_climb ?s1" by (simp add: climb_gate_in_climb)
  with on_time have it: "iteration P g wps start launch drift cs env s
      = initial_climb P env ?evs ?w (corrected_position P drift ?w) ?s1"
    by (simp add: iteration_def Let_def)
  obtain evs k s' where r: "initial_climb P env ?evs ?w (corrected_position P drift ?w) ?s1 = (evs, k, s')"
    by (cases "initial_climb P env ?evs ?w (corrected_position P drift ?w) ?s1") auto
  from r error have "k = Break \<and> last evs = Set_color 255 0 0 \<and> waypoint_index s' = waypoint_index s
      \<and> landing_detected s' = landing_detected s"
    by (auto simp: initial_climb_def send_climb_def loop_handler_def Let_def
        split: if_splits option.splits sum.splits prod.splits)
  with it r cursor airborne show ?thesis by (simp add: post_loop_def)
qed

text \<open>
  C8 on a trajectory that starts and ends on the ground, the body-velocity climb setpoint
  raising \<^verbatim>\<open>OffboardError\<close> in the first iteration: the loop ends there, and the handling
  after the loop calls the landing controller.
\<close>

theorem climb_command_error_ends_loop_witness:
  "trajectory_loop sample_params flat_geodetic climb_traj 0 (0, 0, 0) None 0
     [sample_env 0 (Some OffboardError), sample_env 1 None] initial_state
   = ([([Set_color 255 0 0, Setpoint 0 (Set_velocity_body 0 0 (- 1) 0), Set_color 255 0 0],
        initial_state\<lparr>initial_climb_yaw := Some 0\<rparr>)], True)
   \<and> last [Set_color 255 0 0, Setpoint 0 (Set_velocity_body 0 0 (- 1) 0), Set_color 255 0 0]
       = Set_color 255 0 0
   \<and> post_loop sample_params climb_traj (initial_state\<lparr>initial_climb_yaw := Some 0\<rparr>)
       = [Controlled_landing]"
proof -
  have 1: "waypoint_index initial_state < length climb_traj"
    by (simp add: initial_state_def climb_traj_def)
  have 2: "0 \<le> now (sample_env 0 (Some OffboardError)) - 0
                 - wp_t (climb_traj ! waypoint_index initial_state)"
    by (simp add: initial_state_def climb_traj_def sample_defs)
  have 3: "\<not> initial_climb_completed initial_state" by (simp add: initial_state_def)
  have 4: "- snd (snd (corrected_position sample_params None (climb_traj ! waypoint_index initial_state)))
             < INITIAL_CLIMB_ALTITUDE_THRESHOLD sample_params
           \<or> now (sample_env 0 (Some OffboardError)) - 0 < INITIAL_CLIMB_TIME_THRESHOLD sample_params"
    by (simp add: initial_state_def climb_traj_def sample_defs corrected_position_def)
  have 5: "command_result (sample_env 0 (Some OffboardError)) = Some OffboardError"
    by (simp add: sample_env_def)
  have 6: "\<not> landing_detected initial_state" by (simp add: initial_state_def)
  from climb_command_error_ends_loop [OF 1 2 3 4 5 6, where g = flat_geodetic
      and launch = "(0, 0, 0)" and envs = "[sample_env 1 None]"]
  obtain evs s' where r:
    "trajectory_loop sample_params flat_geodetic climb_traj 0 (0, 0, 0) None 0
       [sample_env 0 (Some OffboardError), sample_env 1 None] initial_state = ([(evs, s')], True)"
    "last evs = Set_color 255 0 0"
    "post_loop sample_params climb_traj s'
       = (if trajectory_ends_high sample_params climb_traj
          then [Stop_offboard_mode, Perform_landing, Wait_for_landing]
          else [Controlled_landing])"
    by blast
  have e: "trajectory_loop sample_params flat_geodetic climb_traj 0 (0, 0, 0) None 0
       [sample_env 0 (Some OffboardError), sample_env 1 None] initial_state
     = ([([Set_color 255 0 0, Setpoint 0 (Set_velocity_body 0 0 (- 1) 0), Set_color 255 0 0],
        initial_state\<lparr>initial_climb_yaw := Some 0\<rparr>)], True)"
    using eval_climb_error by (simp add: initial_state_def climb_traj_def)
  from r(1) e have s': "s' = initial_state\<lparr>initial_climb_yaw := Some 0\<rparr>"
    and evs: "evs = [Set_color 255 0 0, Setpoint 0 (Set_velocity_body 0 0 (- 1) 0), Set_color 255 0 0]"
    by simp_all
  have low: "\<not> trajectory_ends_high sample_params climb_traj"
    by (simp add: trajectory_ends_high_def final_altitude_def climb_traj_def sample_defs)
  from r(2,3) e low show ?thesis unfolding s' evs by simp
qed

text \<open>
  C8 as stated fails: with that error in the first iteration and two more clock readings
  available, the loop makes one iteration only and ends at cursor 0 of 3 waypoints.
\<close>

theorem climb_command_error_counterexample:
  "trajectory_loop sample_params flat_geodetic climb_traj 0 (0, 0, 0) None 0
     [sample_env 0 (Some OffboardError), sample_env 1 None, sample_env 2 None] initial_state
   = ([([Set_color 255 0 0, Setpoint 0 (Set_velocity_body 0 0 (- 1) 0), Set_color 255 0 0],
        initial_state\<lparr>initial_climb_yaw := Some 0\<rparr>)], True)
   \<and> waypoint_index (initial_state\<lparr>initial_climb_yaw := Some 0\<rparr>) = 0
   \<and> length climb_traj = 3"
  using eval_climb_error by (simp add: initial_state_def climb_traj_def)

lemma drift_skip_zero_step:
  "(drift_skip d step i n = Inl ZeroDivisionError) = (step = 0)"
  by (simp add: drift_skip_def Let_def)

text \<open>
  C10. The step used by the drift skip is the difference of the first two time offsets
  for every trajectory of two or more waypoints, whatever the later spacing, and the
  configured default for a trajectory of fewer than two. The drift skip divides by it
  unguarded: it raises \<^verbatim>\<open>ZeroDivisionError\<close> exactly when the step is zero. So for a
  trajectory of at least two waypoints whose first two offsets are equal, every
  on-time-or-late iteration whose climb gate is passed, the first one included, raises
  \<^verbatim>\<open>ZeroDivisionError\<close> in the drift skip: the iteration has set the waypoint's colour,
  sends no setpoint, turns the indicator red and leaves the loop, and the landing handling
  after the loop runs (native landing when the trajectory ends high, the landing
  controller otherwise).
\<close>

theorem zero_step_raises_and_lands:
  "(2 \<le> length wps \<longrightarrow> csv_step P wps = wp_t (wps ! 1) - wp_t (wps ! 0)) \<and>
   (length wps < 2 \<longrightarrow> csv_step P wps = DRIFT_CHECK_PERIOD P) \<and>
   ((drift_skip d step i n = Inl ZeroDivisionError) = (step = 0)) \<and>
   (2 \<le> length wps \<and> wp_t (wps ! 0) = wp_t (wps ! 1) \<and>
    waypoint_index s < length wps \<and>
    0 \<le> now env - start - wp_t (wps ! waypoint_index s) \<and>
    (initial_climb_completed s \<or>
       \<not> - snd (snd (corrected_position P drift (wps ! waypoint_index s)))
             < INITIAL_CLIMB_ALTITUDE_THRESHOLD P \<and>
       \<not> now env - cs < INITIAL_CLIMB_TIME_THRESHOLD P) \<and>
    \<not> landing_detected s
    \<longrightarrow>
      drift_skip (now env - start - wp_t (wps ! waypoint_index s)) (csv_step P wps)
           (waypoint_index s) (length wps) = Inl ZeroDivisionError
      \<and> (\<exists>s'. trajectory_loop P g wps start launch drift cs (env # envs) s
               = ([([Set_color (wp_ledr (wps ! waypoint_index s)) (wp_ledg (wps ! waypoint_index s))
                       (wp_ledb (wps ! waypoint_index s)),
                     Set_color 255 0 0], s')], True)
              \<and> post_loop P wps s'
                  = (if trajectory_ends_high P wps
                     then [Stop_offboard_mode, Perform_landing, Wait_for_landing]
                     else [Controlled_landing])))"
proof (intro conjI impI)
  assume "2 \<le> length wps"
  then show "csv_step P wps = wp_t (wps ! 1) - wp_t (wps ! 0)" by (simp add: csv_step_def)
next
  assume "length wps < 2"
  then show "csv_step P wps = DRIFT_CHECK_PERIOD P" by (simp add: csv_step_def)
next
  show "(drift_skip d step i n = Inl ZeroDivisionError) = (step = 0)"
    by (rule drift_skip_zero_step)
next
  assume h: "2 \<le> length wps \<and> wp_t (wps ! 0) = wp_t (wps ! 1) \<and>
    waypoint_index s < length wps \<and>
    0 \<le> now env - start - wp_t (wps ! waypoint_index s) \<and>
    (initial_climb_completed s \<or>
       \<not> - snd (snd (corrected_position P drift (wps ! waypoint_index s)))
             < INITIAL_CLIMB_ALTITUDE_THRESHOLD P \<and>
       \<not> now env - cs < INITIAL_CLIMB_TIME_THRESHOLD P) \<and>
    \<not> landing_detected s"
  then have z: "csv_step P wps = 0" by (simp add: csv_step_def)
  then show "drift_skip (now env - start - wp_t (wps ! waypoint_index s)) (csv_step P wps)
           (waypoint_index s) (length wps) = Inl ZeroDivisionError"
    by (simp add: drift_skip_zero_step)
next
  assume h: "2 \<le> length wps \<and> wp_t (wps ! 0) = wp_t (wps ! 1) \<and>
    waypoint_index s < length wps \<and>
    0 \<le> now env - start - wp_t (wps ! waypoint_index s) \<and>
    (initial_climb_completed s \<or>
       \<not> - snd (snd (corrected_position P drift (wps ! waypoint_index s)))
             < INITIAL_CLIMB_ALTITUDE_THRESHOLD P \<and>
       \<not> now env - cs < INITIAL_CLIMB_TIME_THRESHOLD P) \<and>
    \<not> landing_detected s"
  then have z: "csv_step P wps = 0" by (simp add: csv_step_def)
  then have ds: "\<And>d i n. drift_skip d (csv_step P wps) i n = Inl ZeroDivisionError"
    by (simp add: drift_skip_zero_step)
  from h have on_time: "0 \<le> now env - start - wp_t (wps ! waypoint_index s)"
    and gate: "initial_climb_completed s \<or>
       \<not> - snd (snd (corrected_position P drift (wps ! waypoint_index s)))
             < INITIAL_CLIMB_ALTITUDE_THRESHOLD P \<and>
       \<not> now env - cs < INITIAL_CLIMB_TIME_THRESHOLD P"
    and cursor: "waypoint_index s < length wps" and airborne: "\<not> landing_detected s"
    by blast+
  let ?w = "wps ! waypoint_index s"
  let ?s1 = "climb_gate P (now env - cs) (snd (snd (corrected_position P drift ?w)))
                (s\<lparr>drift_delta := now env - start - wp_t ?w\<rparr>)"
  have "iteration P g wps start launch drift cs env s
          = ([Set_color (wp_ledr ?w) (wp_ledg ?w) (wp_ledb ?w), Set_color 255 0 0], Break, ?s1)"
    unfolding iteration_dispatch [OF on_time gate]
    by (simp add: dispatch_iteration_def ds loop_handler_def)
  with cursor airborne
  show "\<exists>s'. trajectory_loop P g wps start launch drift cs (env # envs) s
               = ([([Set_color (wp_ledr (wps ! waypoint_index s)) (wp_ledg (wps ! waypoint_index s))
                       (wp_ledb (wps ! waypoint_index s)),
                     Set_color 255 0 0], s')], True)
              \<and> post_loop P wps s'
                  = (if trajectory_ends_high P wps
                     then [Stop_offboard_mode, Perform_landing, Wait_for_landing]
                     else [Controlled_landing])"
    by (simp add: post_loop_def)
qed

text \<open>
  C10 at concrete inputs. The step of a trajectory with offsets 0, 1, 10 is 1, and the
  step of a single waypoint is the default 0.5. On a three-waypoint trajectory whose first
  two offsets are both 0 and which ends on the ground, the drift skip raises and the whole
  of \<^verbatim>\<open>perform_trajectory\<close> sets the colour, turns red, calls the landing controller and
  ends green.
\<close>

theorem zero_step_raises_and_lands_witness:
  "csv_step sample_params landing_traj = 1
   \<and> csv_step sample_params [sample_waypoint 0 0 0 0] = 1 / 2
   \<and> drift_skip (now (sample_env 0 None) - 0 - wp_t (stalled_traj ! waypoint_index initial_state))
      (csv_step sample_params stalled_traj) (waypoint_index initial_state) (length stalled_traj)
     = Inl ZeroDivisionError
   \<and> perform_trajectory sample_params flat_geodetic stalled_traj 0 (0, 0, 0) None 0
       [sample_env 0 None, sample_env 1 None] None
     = Some ([Set_color 255 0 0, Set_color 255 0 0, Controlled_landing, Set_color 0 255 0], None)"
proof -
  have "2 \<le> length landing_traj" by (simp add: landing_traj_def)
  with zero_step_raises_and_lands [where wps = landing_traj and P = sample_params]
  have "csv_step sample_params landing_traj = wp_t (landing_traj ! 1) - wp_t (landing_traj ! 0)"
    by blast
  then have a: "csv_step sample_params landing_traj = 1"
    by (simp add: landing_traj_def sample_waypoint_def)
  have "length [sample_waypoint 0 0 0 0] < 2" by simp
  with zero_step_raises_and_lands [where wps = "[sample_waypoint 0 0 0 0]" and P = sample_params]
  have "csv_step sample_params [sample_waypoint 0 0 0 0] = DRIFT_CHECK_PERIOD sample_params"
    by blast
  then have b: "csv_step sample_params [sample_waypoint 0 0 0 0] = 1 / 2"
    by (simp add: sample_params_def)
  have h: "2 \<le> length stalled_traj \<and> wp_t (stalled_traj ! 0) = wp_t (stalled_traj ! 1) \<and>
    waypoint_index initial_state < length stalled_traj \<and>
    0 \<le> now (sample_env 0 None) - 0 - wp_t (stalled_traj ! waypoint_index initial_state) \<and>
    (initial_climb_completed initial_state \<or>
       \<not> - snd (snd (corrected_position sample_params None
               (stalled_traj ! waypoint_index initial_state)))
             < INITIAL_CLIMB_ALTITUDE_THRESHOLD sample_params \<and>
       \<not> now (sample_env 0 None) - 0 < INITIAL_CLIMB_TIME_THRESHOLD sample_params) \<and>
    \<not> landing_detected initial_state"
    by (simp add: initial_state_def stalled_traj_def sample_defs corrected_position_def)
  have 3: "waypoint_index initial_state < length stalled_traj"
    by (simp add: initial_state_def stalled_traj_def)
  from zero_step_raises_and_lands [where wps = stalled_traj and P = sample_params
      and s = initial_state and env = "sample_env 0 None" and start = 0 and drift = None
      and cs = 0 and g = flat_geodetic and launch = "(0, 0, 0)" and envs = "[sample_env 1 None]"] h
  obtain s' where z: "drift_skip (now (sample_env 0 None) - 0 - wp_t (stalled_traj ! waypoint_index initial_state))
      (csv_step sample_params stalled_traj) (waypoint_index initial_state) (length stalled_traj)
     = Inl ZeroDivisionError"
    and l: "trajectory_loop sample_params flat_geodetic stalled_traj 0 (0, 0, 0) None 0
              [sample_env 0 None, sample_env 1 None] initial_state
            = ([([Set_color (wp_ledr (stalled_traj ! waypoint_index initial_state))
                    (wp_ledg (stalled_traj ! waypoint_index initial_state))
                    (wp_ledb (stalled_traj ! waypoint_index initial_state)),
                  Set_color 255 0 0], s')], True)"
    and p: "post_loop sample_params stalled_traj s'
              = (if trajectory_ends_high sample_params stalled_traj
                 then [Stop_offboard_mode, Perform_landing, Wait_for_landing]
                 else [Controlled_landing])"
    by blast
  have low: "\<not> trajectory_ends_high sample_params stalled_traj"
    by (simp add: trajectory_ends_high_def final_altitude_def stalled_traj_def sample_defs)
  have e: "trajectory_loop sample_params flat_geodetic stalled_traj 0 (0, 0, 0) None 0
              [sample_env 0 None, sample_env 1 None] initial_state
            = ([([Set_color 255 0 0, Set_color 255 0 0],
                 initial_state\<lparr>in_initial_climb := False, initial_climb_completed := True\<rparr>)], True)"
    using eval_stalled 3 by simp
  from l e have "s' = initial_state\<lparr>in_initial_climb := False, initial_climb_completed := True\<rparr>"
    by simp
  then have nl: "\<not> landing_detected s'" by (simp add: initial_state_def)
  have led: "Set_color (wp_ledr (stalled_traj ! waypoint_index initial_state))
                    (wp_ledg (stalled_traj ! waypoint_index initial_state))
                    (wp_ledb (stalled_traj ! waypoint_index initial_state)) = Set_color 255 0 0"
    by (simp add: initial_state_def stalled_traj_def sample_waypoint_def)
  have "perform_trajectory sample_params flat_geodetic stalled_traj 0 (0, 0, 0) None 0
       [sample_env 0 None, sample_env 1 None] None
     = Some ([Set_color 255 0 0, Set_color 255 0 0, Controlled_landing, Set_color 0 255 0], None)"
    unfolding perform_trajectory_def l using p low nl led
    by (simp add: stalled_traj_def Let_def loop_events_def)
  with a b z show ?thesis by simp
qed

section \<open>Properties of the landing controller and of the activator\<close>

text \<open>
  Inside the descent loop an error of the descent setpoint turns the indicator red and
  is followed by the fallback (stop offboard mode, native landing); a first sample
  \<^verbatim>\<open>ON_GROUND\<close> before the timeout ends the descent with a disarm.
\<close>

lemma landing_loop_error_falls_back:
  assumes "descent_result p = Some e"
  shows "controlled_landing P landing_start_time None (p # ps)
     = Some ([descent_command P, descent_command P, Set_color 255 0 0,
              Stop_offboard_mode, Perform_landing, Set_color 0 255 0], None)"
  using assms by (simp add: controlled_landing_def)

lemma landing_on_first_poll:
  assumes "descent_result p = None" and "landed_sample p = Inr (Some ON_GROUND)"
    and "\<not> poll_clock p - landing_start_time > LANDING_TIMEOUT P"
  shows "controlled_landing P landing_start_time None (p # ps)
     = Some ([descent_command P, descent_command P, Sleep (1 / 10),
              Stop_offboard_mode, Disarm_drone, Set_color 0 255 0], None)"
  using assms by (simp add: controlled_landing_def)

text \<open>
  C9, at the input where the code departs from it. When the first descent setpoint, the
  one sent before the loop, raises \<^verbatim>\<open>OffboardError\<close>, the controller turns the
  indicator red and returns: offboard mode is not stopped and no native landing is
  commanded.
\<close>

theorem landing_setup_error_returns_early:
  "controlled_landing P landing_start_time (Some OffboardError) polls
     = Some ([Command (Set_velocity_ned 0 0 (CONTROLLED_DESCENT_SPEED P) 0), Set_color 255 0 0], None)"
  by (simp add: controlled_landing_def descent_command_def)

text \<open>
  A failed request, a status other than 200, a JSON object with a member missing, and a
  body that is not JSON (where the library raises a \<^verbatim>\<open>RequestException\<close> for it) give no
  correction and raise nothing; with no correction every waypoint keeps its position.
\<close>

lemma drift_fetch_failures_give_no_correction:
  "compute_position_drift json_error Request_failed = Inr None"
  "code \<noteq> 200 \<Longrightarrow> compute_position_drift json_error (Responded \<lparr>status_code = code, body = b\<rparr>) = Inr None"
  "m ''x'' = None \<or> m ''y'' = None \<or> m ''z'' = None \<Longrightarrow>
     compute_position_drift json_error (Responded \<lparr>status_code = 200, body = Json_object m\<rparr>) = Inr None"
  "compute_position_drift RequestException (Responded \<lparr>status_code = 200, body = Not_json\<rparr>) = Inr None"
  by (auto simp: compute_position_drift_def drift_handler_def split: option.splits)

lemma no_correction_leaves_position:
  "corrected_position P None w = (wp_px w, wp_py w, wp_pz w)"
  by (simp add: corrected_position_def)

text \<open>
  C7, at the input where the code departs from it. The service answers with status 200
  and a JSON value that is not an object (an array, say). Subscripting it raises
  \<^verbatim>\<open>TypeError\<close>, which neither \<^verbatim>\<open>except\<close> clause of the fetch catches; in the arming
  sequence the exception reaches the handler, which disarms, turns the indicator red and
  raises it again.
\<close>

theorem drift_fetch_non_object_payload_raises:
  "compute_position_drift json_error (Responded \<lparr>status_code = 200, body = Json_other\<rparr>)
     = Inl TypeError
   \<and> arming_and_starting_offboard_mode
        (P\<lparr>REQUIRE_GLOBAL_POSITION := True\<rparr>) json_error True None
        (all_ok (Responded \<lparr>status_code = 200, body = Json_other\<rparr>))
     = ([Set_color 0 255 0, Disarm, Set_color 255 0 0], None, Some TypeError)"
  by (simp add: compute_position_drift_def drift_handler_def
      arming_and_starting_offboard_mode_def arming_handler_def all_ok_def)

end
